theory Spec2Isabelle
  imports Complex_Main "HOL-Library.Word"
begin

unbundle bit_operations_syntax

section \<open>The entity handler of Entity.c\<close>

text \<open>
  A shallow embedding of the functions of \<^verbatim>\<open>src/Entity.c\<close>: \<^verbatim>\<open>DrawEntity\<close>,
  \<^verbatim>\<open>InitEntity\<close>, \<^verbatim>\<open>ResurrectEntity\<close>, \<^verbatim>\<open>SetEntitySpriteAnimation\<close> and
  \<^verbatim>\<open>UpdateEntity\<close>.

  Conventions of the embedding.
  \<^item> A \<^verbatim>\<open>double\<close> is a \<^typ>\<open>real\<close>: a finite value. Infinities and NaN are outside the
    model. Arithmetic is exact, with one exception: the two sums that \<^verbatim>\<open>UpdateEntity\<close>
    stores in the bounding box are rounded as the addition of binary64 rounds them (to
    nearest, ties to even), because the difference between such a sum and its summand
    is what a property of the box is about.
  \<^item> \<^verbatim>\<open>uint8_t\<close>, \<^verbatim>\<open>uint16_t\<close> and \<^verbatim>\<open>uint32_t\<close> are words of that width, so that
    \<^verbatim>\<open>u8Frame++\<close> and \<^verbatim>\<open>u32MapWidth - u8Width\<close> wrap as they do in C.
  \<^item> The entity is passed by pointer and mutated in place; the model passes the record
    and returns the updated one.
  \<^item> Behaviour that C leaves undefined is an error value: the conversion of a
    \<^verbatim>\<open>double\<close> whose integral part does not fit the integer type, and the division
    by a zero \<^verbatim>\<open>dFrameAnimationFPS\<close>.
\<close>

subsection \<open>Data\<close>

type_synonym uint8_t = "8 word"
type_synonym uint16_t = "16 word"
type_synonym uint32_t = "32 word"
type_synonym int8_t = "8 word" \<comment> \<open>read in two's complement, by \<open>sint\<close>\<close>
type_synonym double = real

text \<open>The texture behind \<^verbatim>\<open>SDL_Texture *\<close> is opaque: a handle. \<^verbatim>\<open>NULL\<close> is \<open>None\<close>.\<close>

type_synonym SDL_Texture = nat

text \<open>\<^verbatim>\<open>struct AABB\<close>, with the four members Entity.c writes.\<close>

record AABB =
  dBottom :: double
  dLeft :: double
  dRight :: double
  dTop :: double

text \<open>\<^verbatim>\<open>struct Entity_t\<close>, with the members Entity.c reads and writes.\<close>

record Entity =
  dAcceleration :: double
  dDeceleration :: double
  u16Flags :: uint16_t
  u8Height :: uint8_t
  u8Width :: uint8_t
  u32MapWidth :: uint32_t
  dFrameAnimationFPS :: double
  u8FrameStart :: uint8_t
  u8FrameEnd :: uint8_t
  u8FrameOffsetY :: uint8_t
  dMaxVelocityX :: double
  dWorldMeterInPixel :: double
  dWorldGravitation :: double
  dWorldPosX :: double
  dWorldPosY :: double
  pstSprite :: "SDL_Texture option"
  u8Frame :: uint8_t
  dFrameDuration :: double
  stBB :: AABB
  dInitialWorldPosX :: double
  dInitialWorldPosY :: double
  dDistanceY :: double
  dVelocityX :: double
  dVelocityY :: double

text \<open>
  The enumerators \<^verbatim>\<open>ENTITY_IS_DEAD\<close>, \<^verbatim>\<open>ENTITY_IS_IN_MID_AIR\<close>, \<^verbatim>\<open>ENTITY_IS_MOVING\<close>
  and \<^verbatim>\<open>ENTITY_DIRECTION\<close> are bit positions in \<^verbatim>\<open>u16Flags\<close>. They are declared in
  Entity.h, which is not part of the sources at hand, so their values are a parameter
  of every function that uses one.
\<close>

record EntityFlags =
  ENTITY_IS_DEAD :: nat
  ENTITY_IS_IN_MID_AIR :: nat
  ENTITY_IS_MOVING :: nat
  ENTITY_DIRECTION :: nat

text \<open>
  Modelled from the spec: the macro \<^verbatim>\<open>FLAG_IS_SET\<close> of Macros.h, which is not part of
  the sources at hand. The flags are independent boolean bits; the test is the one
  \<^verbatim>\<open>DrawEntity\<close> writes out, \<^verbatim>\<open>(u16Flags >> flag) & 1\<close>.
\<close>

definition FLAG_IS_SET :: "uint16_t \<Rightarrow> nat \<Rightarrow> bool" where
  "FLAG_IS_SET field flag \<longleftrightarrow> (drop_bit flag field) AND 1 \<noteq> 0"

datatype error = CastOutOfRange | DivisionByZero

subsection \<open>C arithmetic\<close>

text \<open>
  The conversion of a \<^verbatim>\<open>double\<close> to a 32-bit \<^verbatim>\<open>int\<close> discards the fractional part
  (truncation towards zero); it is undefined when the integral part is not
  representable.
\<close>

definition trunc :: "double \<Rightarrow> int" where
  "trunc d = (if 0 \<le> d then \<lfloor>d\<rfloor> else \<lceil>d\<rceil>)"

definition int32_of_double :: "double \<Rightarrow> int option" where
  "int32_of_double d =
     (if - (2 ^ 31) \<le> trunc d \<and> trunc d < 2 ^ 31 then Some (trunc d) else None)"

text \<open>The remainder of C's integer division, which truncates towards zero.\<close>

definition c_rem :: "int \<Rightarrow> int \<Rightarrow> int" where
  "c_rem a b = a - b * (sgn a * sgn b * (\<bar>a\<bar> div \<bar>b\<bar>))"

text \<open>
  The sum of two doubles is the exact sum rounded to the nearest double, ties to the
  even significand (the default rounding mode). A double has a significand of 53 bits.
  For a positive \<open>x\<close>, \<open>exponent2 x\<close> is the exponent of the power of 2 at or below \<open>x\<close>,
  found by halving or doubling; \<open>binade x\<close> is that of \<open>\<bar>x\<bar>\<close>, and at least \<open>- 1022\<close>,
  where the subnormal numbers begin; the doubles around \<open>x\<close> are the multiples of
  \<open>2 powi (binade x - 52)\<close>. (A sum of magnitude \<open>2 ^ 1024 - 2 ^ 970\<close> or more would
  round to an infinity; the sum of a double and a \<^verbatim>\<open>uint8_t\<close> is never that large.)
\<close>

definition round_half_even :: "real \<Rightarrow> int" where
  "round_half_even x =
     (let f = \<lfloor>x\<rfloor>; r = x - real_of_int f
      in if r < 1 / 2 then f else if 1 / 2 < r then f + 1 else if even f then f else f + 1)"

function exponent2 :: "real \<Rightarrow> int" where
  "exponent2 x =
     (if x \<le> 0 then 0
      else if 2 \<le> x then exponent2 (x / 2) + 1
      else if x < 1 then exponent2 (x * 2) - 1
      else 0)"
  by pat_completeness auto

lemma floor_log2_half:
  assumes "2 \<le> x"
  shows "\<lfloor>log 2 (x / 2)\<rfloor> = \<lfloor>log 2 x\<rfloor> - 1" and "1 \<le> \<lfloor>log 2 x\<rfloor>"
proof -
  from assms have pos: "0 < x" by simp
  have "log 2 (x / 2) = log 2 x - 1"
    using pos by (simp add: log_divide)
  then show "\<lfloor>log 2 (x / 2)\<rfloor> = \<lfloor>log 2 x\<rfloor> - 1" by simp
  have "log 2 2 \<le> log 2 x" using assms by (simp del: log_eq_one)
  then have "1 \<le> log 2 x" by simp
  then show "1 \<le> \<lfloor>log 2 x\<rfloor>" by (simp add: le_floor_iff)
qed

lemma floor_log2_double:
  assumes "0 < x" and "x < 1"
  shows "\<lfloor>log 2 (x * 2)\<rfloor> = \<lfloor>log 2 x\<rfloor> + 1" and "\<lfloor>log 2 x\<rfloor> \<le> - 1"
proof -
  have "log 2 (x * 2) = log 2 x + 1"
    using assms(1) by (simp add: log_mult)
  then show "\<lfloor>log 2 (x * 2)\<rfloor> = \<lfloor>log 2 x\<rfloor> + 1" by simp
  have "log 2 x < 0" using assms by simp
  then show "\<lfloor>log 2 x\<rfloor> \<le> - 1" by (simp add: floor_le_iff)
qed

termination exponent2
proof (relation "measure (\<lambda>x. nat \<bar>\<lfloor>log 2 x\<rfloor>\<bar>)")
  show "wf (measure (\<lambda>x. nat \<bar>\<lfloor>log 2 x\<rfloor>\<bar>))" by simp
next
  fix x :: real
  assume "\<not> x \<le> 0" and "2 \<le> x"
  from floor_log2_half [OF this(2)]
  show "(x / 2, x) \<in> measure (\<lambda>x. nat \<bar>\<lfloor>log 2 x\<rfloor>\<bar>)"
    by (simp only: in_measure)
next
  fix x :: real
  assume "\<not> x \<le> 0" and "\<not> 2 \<le> x" and "x < 1"
  then have "0 < x" by simp
  from floor_log2_double [OF this \<open>x < 1\<close>]
  show "(x * 2, x) \<in> measure (\<lambda>x. nat \<bar>\<lfloor>log 2 x\<rfloor>\<bar>)"
    by (simp only: in_measure)
qed

declare exponent2.simps [simp del]

definition binade :: "real \<Rightarrow> int" where
  "binade x = max (- 1022) (exponent2 \<bar>x\<bar>)"

definition round_double :: "real \<Rightarrow> double" where
  "round_double x =
     (if x = 0 then 0
      else sgn x * real_of_int (round_half_even (\<bar>x\<bar> / 2 powi (binade x - 52)))
             * 2 powi (binade x - 52))"

definition double_add :: "double \<Rightarrow> double \<Rightarrow> double" where
  "double_add x y = round_double (x + y)"

subsection \<open>InitEntity\<close>

text \<open>
  \<^verbatim>\<open>malloc\<close> is the only way to fail; its outcome is the first argument. The members
  are those of the source, with the values the source assigns (the record lists them
  in the order of the assignments).
\<close>

definition InitEntity ::
  "bool \<Rightarrow> uint8_t \<Rightarrow> uint8_t \<Rightarrow> double \<Rightarrow> double \<Rightarrow> uint32_t \<Rightarrow> Entity option" where
  "InitEntity malloc_ok u8Width' u8Height' dPosX dPosY u32MapWidth' =
     (if \<not> malloc_ok then None
      else Some \<lparr>
        dAcceleration = 400,
        dDeceleration = 200,
        u16Flags = 0,
        u8Height = u8Height',
        u8Width = u8Width',
        u32MapWidth = u32MapWidth',
        dFrameAnimationFPS = 20,
        u8FrameStart = 0,
        u8FrameEnd = 12,
        u8FrameOffsetY = 0,
        dMaxVelocityX = 100,
        dWorldMeterInPixel = 48,
        dWorldGravitation = 9.81,
        dWorldPosX = dPosX,
        dWorldPosY = dPosY,
        pstSprite = None,
        u8Frame = 0,
        dFrameDuration = 0,
        stBB = \<lparr>dBottom = 0,
                 dLeft = real (unat u8Height'),
                 dRight = real (unat u8Width'),
                 dTop = 0\<rparr>,
        dInitialWorldPosX = dPosX,
        dInitialWorldPosY = dPosY,
        dDistanceY = 0,
        dVelocityX = 0,
        dVelocityY = 0\<rparr>)"

subsection \<open>ResurrectEntity\<close>

text \<open>
  \<^verbatim>\<open>u16Flags &= ~(1 << flag)\<close>: the operands are promoted to \<^verbatim>\<open>int\<close> (32 bits), the
  result is converted back to 16 bits. The shift of the \<^verbatim>\<open>int\<close> 1 is defined for a
  bit position below 31, and \<open>clear_flag\<close> is the C expression there.
\<close>

definition clear_flag :: "uint16_t \<Rightarrow> nat \<Rightarrow> uint16_t" where
  "clear_flag field flag =
     ucast ((ucast field :: 32 word) AND NOT (push_bit flag (1 :: 32 word)))"

definition ResurrectEntity :: "EntityFlags \<Rightarrow> Entity \<Rightarrow> Entity" where
  "ResurrectEntity fl pstEntity =
     (let e1 = pstEntity\<lparr>u16Flags := clear_flag (u16Flags pstEntity) (ENTITY_IS_DEAD fl)\<rparr>;
          e2 = e1\<lparr>u16Flags := clear_flag (u16Flags e1) (ENTITY_IS_MOVING fl)\<rparr>;
          e3 = e2\<lparr>dWorldPosX := dInitialWorldPosX e2\<rparr>
      in e3\<lparr>dWorldPosY := dInitialWorldPosY e3\<rparr>)"

subsection \<open>SetEntitySpriteAnimation\<close>

definition SetEntitySpriteAnimation ::
  "Entity \<Rightarrow> uint8_t \<Rightarrow> uint8_t \<Rightarrow> uint8_t \<Rightarrow> double \<Rightarrow> Entity" where
  "SetEntitySpriteAnimation pstEntity u8FrameStart' u8FrameEnd' u8FrameOffsetY' dFrameAnimationFPS' =
     pstEntity\<lparr>u8FrameStart := u8FrameStart',
               u8FrameEnd := u8FrameEnd',
               u8FrameOffsetY := u8FrameOffsetY',
               dFrameAnimationFPS := dFrameAnimationFPS'\<rparr>"

subsection \<open>UpdateEntity\<close>

text \<open>
  The function is a sequence of blocks, each under a comment of the source; each block
  is a definition here, and \<open>UpdateEntity\<close> runs them in the source's order.
\<close>

text \<open>
  Lines 213 to 217, \<^verbatim>\<open>// Update bounding box.\<close> The two sums are additions of
  doubles (the \<^verbatim>\<open>uint8_t\<close> operand is converted, exactly), and the box stores their
  rounded results.
\<close>

definition update_bounding_box :: "Entity \<Rightarrow> Entity" where
  "update_bounding_box e =
     (let e1 = e\<lparr>stBB := (stBB e)
                 \<lparr>dBottom := double_add (dWorldPosY e) (real (unat (u8Height e)))\<rparr>\<rparr>;
          e2 = e1\<lparr>stBB := (stBB e1)\<lparr>dLeft := dWorldPosX e1\<rparr>\<rparr>;
          e3 = e2\<lparr>stBB := (stBB e2)
                 \<lparr>dRight := double_add (dWorldPosX e2) (real (unat (u8Width e2)))\<rparr>\<rparr>
      in e3\<lparr>stBB := (stBB e3)\<lparr>dTop := dWorldPosY e3\<rparr>\<rparr>)"

text \<open>Lines 219 to 227, the velocity along the x-axis while the entity is in motion.\<close>

definition update_velocity :: "EntityFlags \<Rightarrow> Entity \<Rightarrow> double \<Rightarrow> Entity" where
  "update_velocity fl e dDeltaTime =
     (if FLAG_IS_SET (u16Flags e) (ENTITY_IS_MOVING fl)
      then e\<lparr>dVelocityX := dVelocityX e + dAcceleration e * dDeltaTime\<rparr>
      else e\<lparr>dVelocityX := dVelocityX e - dDeceleration e * dDeltaTime\<rparr>)"

text \<open>Lines 229 to 234, the velocity limits: two \<^verbatim>\<open>if\<close> statements in sequence.\<close>

definition limit_velocity :: "Entity \<Rightarrow> Entity" where
  "limit_velocity e =
     (let e1 = (if dVelocityX e \<ge> dMaxVelocityX e
                then e\<lparr>dVelocityX := dMaxVelocityX e\<rparr> else e)
      in if dVelocityX e1 < 0 then e1\<lparr>dVelocityX := 0\<rparr> else e1)"

text \<open>Lines 237 to 248, \<^verbatim>\<open>// Set horizontal entity position.\<close>\<close>

definition set_horizontal_position :: "EntityFlags \<Rightarrow> Entity \<Rightarrow> double \<Rightarrow> Entity" where
  "set_horizontal_position fl e dDeltaTime =
     (if dVelocityX e > 0
      then (if FLAG_IS_SET (u16Flags e) (ENTITY_DIRECTION fl)
            then e\<lparr>dWorldPosX := dWorldPosX e - (dVelocityX e * dDeltaTime)\<rparr>
            else e\<lparr>dWorldPosX := dWorldPosX e + (dVelocityX e * dDeltaTime)\<rparr>)
      else e)"

text \<open>
  Lines 262 to 266, the loop of the \<^verbatim>\<open>// Experimental y-coordinate correction\<close>, on
  the one member it reads and writes. \<open>y_correction_body\<close> is the loop's body: \<^verbatim>\<open>floor\<close>,
  then \<^verbatim>\<open>-= 1.0\<close>. The loop's test converts to \<^verbatim>\<open>int32_t\<close>, which is undefined out of
  range.
\<close>

definition y_correction_body :: "double \<Rightarrow> double" where
  "y_correction_body y = real_of_int \<lfloor>y\<rfloor> - 1.0"

function y_correction :: "double \<Rightarrow> error + double" where
  "y_correction y =
     (case int32_of_double y of
        None \<Rightarrow> Inl CastOutOfRange
      | Some i \<Rightarrow> if 0 \<noteq> c_rem i 8 then y_correction (y_correction_body y) else Inr y)"
  by pat_completeness auto

lemma int32_of_double_floor:
  assumes "int32_of_double y = Some i"
  shows "- (2 ^ 31) - 1 \<le> \<lfloor>y\<rfloor>"
proof -
  from assms have t: "- (2 ^ 31) \<le> trunc y"
    by (simp add: int32_of_double_def split: if_splits)
  show ?thesis
  proof (cases "0 \<le> y")
    case True
    with t show ?thesis by (simp add: trunc_def)
  next
    case False
    with t have "- (2 ^ 31) \<le> \<lceil>y\<rceil>" by (simp add: trunc_def)
    moreover have "\<lceil>y\<rceil> \<le> \<lfloor>y\<rfloor> + 1" by linarith
    ultimately show ?thesis by linarith
  qed
qed

termination y_correction
proof (relation "measure (\<lambda>y. nat (\<lfloor>y\<rfloor> + 2 ^ 31 + 2))")
  show "wf (measure (\<lambda>y. nat (\<lfloor>y\<rfloor> + 2 ^ 31 + 2)))" by simp
next
  fix y :: double and i :: int
  assume "int32_of_double y = Some i"
  then have lower: "- (2 ^ 31) - 1 \<le> \<lfloor>y\<rfloor>" by (rule int32_of_double_floor)
  have "\<lfloor>y_correction_body y\<rfloor> = \<lfloor>y\<rfloor> - 1"
    by (simp add: y_correction_body_def)
  with lower have "nat (\<lfloor>y_correction_body y\<rfloor> + 2 ^ 31 + 2) < nat (\<lfloor>y\<rfloor> + 2 ^ 31 + 2)"
    by linarith
  then show "(y_correction_body y, y) \<in> measure (\<lambda>y. nat (\<lfloor>y\<rfloor> + 2 ^ 31 + 2))"
    by (simp only: in_measure)
qed

declare y_correction.simps [simp del]

text \<open>Lines 250 to 267, \<^verbatim>\<open>// Apply gravity.\<close>\<close>

definition apply_gravity :: "EntityFlags \<Rightarrow> Entity \<Rightarrow> double \<Rightarrow> error + Entity" where
  "apply_gravity fl e dDeltaTime =
     (if FLAG_IS_SET (u16Flags e) (ENTITY_IS_IN_MID_AIR fl)
      then (let dG = dWorldMeterInPixel e * dWorldGravitation e;
                e1 = e\<lparr>dDistanceY := dG * dDeltaTime * dDeltaTime\<rparr>;
                e2 = e1\<lparr>dVelocityY := dVelocityY e1 + dDistanceY e1\<rparr>
            in Inr (e2\<lparr>dWorldPosY := dWorldPosY e2 + dVelocityY e2\<rparr>))
      else (case y_correction (dWorldPosY e) of
              Inl err \<Rightarrow> Inl err
            | Inr y \<Rightarrow> Inr (e\<lparr>dWorldPosY := y\<rparr>)))"

text \<open>
  Lines 269 to 278, \<^verbatim>\<open>// Connect left and right map border and vice versa.\<close>
  \<^verbatim>\<open>0 - u8Width\<close> is computed in \<^verbatim>\<open>int\<close>; \<^verbatim>\<open>u32MapWidth - u8Width\<close> is computed in
  \<^verbatim>\<open>uint32_t\<close>, where it wraps; both are then converted to \<^verbatim>\<open>double\<close>.
\<close>

definition connect_map_borders :: "Entity \<Rightarrow> Entity" where
  "connect_map_borders e =
     (let e1 = (if dWorldPosX e < real_of_int (0 - uint (u8Width e))
                then e\<lparr>dWorldPosX := real (unat (u32MapWidth e - ucast (u8Width e)))\<rparr>
                else e)
      in if dWorldPosX e1 > real (unat (u32MapWidth e1 - ucast (u8Width e1)))
         then e1\<lparr>dWorldPosX := real_of_int (0 - uint (u8Width e1))\<rparr>
         else e1)"

text \<open>
  Lines 280 to 298, \<^verbatim>\<open>// Update frame.\<close> and \<^verbatim>\<open>// Loop frame animation.\<close>
  \<^verbatim>\<open>u8Frame++\<close> is an addition in \<^verbatim>\<open>uint8_t\<close>.
\<close>

definition update_frame :: "Entity \<Rightarrow> double \<Rightarrow> error + Entity" where
  "update_frame e dDeltaTime =
     (let e1 = e\<lparr>dFrameDuration := dFrameDuration e + dDeltaTime\<rparr>;
          e2 = (if u8Frame e1 < u8FrameStart e1 then e1\<lparr>u8Frame := u8FrameStart e1\<rparr> else e1)
      in if dFrameAnimationFPS e2 = 0 then Inl DivisionByZero
         else
          (let e3 = (if dFrameDuration e2 > 1 / dFrameAnimationFPS e2
                     then e2\<lparr>u8Frame := u8Frame e2 + 1, dFrameDuration := 0\<rparr>
                     else e2)
           in Inr (if u8Frame e3 \<ge> u8FrameEnd e3 then e3\<lparr>u8Frame := u8FrameStart e3\<rparr> else e3)))"

definition UpdateEntity :: "EntityFlags \<Rightarrow> Entity \<Rightarrow> double \<Rightarrow> error + Entity" where
  "UpdateEntity fl pstEntity dDeltaTime =
     (let e1 = update_bounding_box pstEntity;
          e2 = update_velocity fl e1 dDeltaTime;
          e3 = limit_velocity e2;
          e4 = set_horizontal_position fl e3 dDeltaTime
      in case apply_gravity fl e4 dDeltaTime of
           Inl err \<Rightarrow> Inl err
         | Inr e5 \<Rightarrow> update_frame (connect_map_borders e5) dDeltaTime)"

text \<open>
  \<^verbatim>\<open>UpdateEntity\<close> ``has to be called every frame'': the calls of a run of frames, one
  time step each, stopping at the first error.
\<close>

fun UpdateEntity_frames :: "EntityFlags \<Rightarrow> Entity \<Rightarrow> double list \<Rightarrow> error + Entity" where
  "UpdateEntity_frames fl e [] = Inr e"
| "UpdateEntity_frames fl e (dDeltaTime # dts) =
     (case UpdateEntity fl e dDeltaTime of
        Inl err \<Rightarrow> Inl err
      | Inr e' \<Rightarrow> UpdateEntity_frames fl e' dts)"

subsection \<open>DrawEntity\<close>

text \<open>
  The renderer is external. A call of \<^verbatim>\<open>SDL_RenderCopyEx\<close> is recorded with its
  arguments (texture, source and destination rectangle, angle, flip; the centre is
  always \<^verbatim>\<open>NULL\<close>); what the call returns is a parameter. The members of \<^verbatim>\<open>SDL_Rect\<close>
  are \<^verbatim>\<open>x\<close>, \<^verbatim>\<open>y\<close>, \<^verbatim>\<open>w\<close>, \<^verbatim>\<open>h\<close>, here with a prefix.
\<close>

record SDL_Rect =
  rect_x :: int
  rect_y :: int
  rect_w :: int
  rect_h :: int

datatype SDL_RendererFlip = SDL_FLIP_NONE | SDL_FLIP_HORIZONTAL

record RenderCopyEx_call =
  texture :: SDL_Texture
  srcrect :: SDL_Rect
  dstrect :: SDL_Rect
  angle :: double
  flip :: SDL_RendererFlip

text \<open>
  What a call of \<^verbatim>\<open>DrawEntity\<close> leaves behind: the value it returns, the calls it made
  to the renderer, the lines it wrote to \<^verbatim>\<open>stderr\<close>, and the entity.
\<close>

record DrawEntity_result =
  returned :: int8_t
  render_calls :: "RenderCopyEx_call list"
  stderr_lines :: "string list"
  entity :: Entity

definition DrawEntity ::
  "(RenderCopyEx_call \<Rightarrow> int) \<Rightarrow> string \<Rightarrow> EntityFlags \<Rightarrow> Entity \<Rightarrow> double \<Rightarrow> double
     \<Rightarrow> error + DrawEntity_result" where
  "DrawEntity SDL_RenderCopyEx SDL_GetError fl pstEntity dCameraPosX dCameraPosY =
     (case pstSprite pstEntity of
        None \<Rightarrow>
          Inr \<lparr>returned = - 1, render_calls = [], stderr_lines = [SDL_GetError],
               entity = pstEntity\<rparr>
      | Some sprite \<Rightarrow>
          (let dRenderPosX = dWorldPosX pstEntity - dCameraPosX;
               dRenderPosY = dWorldPosY pstEntity - dCameraPosY
           in case (int32_of_double dRenderPosX, int32_of_double dRenderPosY) of
                (Some dst_x, Some dst_y) \<Rightarrow>
                  (let stDst = \<lparr>rect_x = dst_x, rect_y = dst_y,
                                 rect_w = uint (u8Width pstEntity),
                                 rect_h = uint (u8Height pstEntity)\<rparr>;
                       stSrc = \<lparr>rect_x = uint (u8Frame pstEntity) * uint (u8Width pstEntity),
                                 rect_y = uint (u8FrameOffsetY pstEntity) * uint (u8Height pstEntity),
                                 rect_w = uint (u8Width pstEntity),
                                 rect_h = uint (u8Height pstEntity)\<rparr>;
                       s8Flip = (if (drop_bit (ENTITY_DIRECTION fl) (u16Flags pstEntity)) AND 1 \<noteq> 0
                                 then SDL_FLIP_HORIZONTAL else SDL_FLIP_NONE);
                       call = \<lparr>texture = sprite, srcrect = stSrc, dstrect = stDst,
                                angle = 0, flip = s8Flip\<rparr>
                   in if - 1 = SDL_RenderCopyEx call
                      then Inr \<lparr>returned = - 1, render_calls = [call],
                                stderr_lines = [SDL_GetError], entity = pstEntity\<rparr>
                      else Inr \<lparr>returned = 0, render_calls = [call],
                                stderr_lines = [], entity = pstEntity\<rparr>)
              | _ \<Rightarrow> Inl CastOutOfRange))"

subsection \<open>Example inputs\<close>

text \<open>
  A choice of the enumerators, and the entity \<^verbatim>\<open>InitEntity(16, 32, 100, 200, 640)\<close> returns,
  for the examples that follow.
\<close>

definition example_flags :: EntityFlags where
  "example_flags =
     \<lparr>ENTITY_IS_DEAD = 0, ENTITY_IS_IN_MID_AIR = 1, ENTITY_IS_MOVING = 2, ENTITY_DIRECTION = 3\<rparr>"

definition example_entity :: Entity where
  "example_entity = the (InitEntity True 16 32 100 200 640)"

section \<open>Properties\<close>

subsection \<open>Rounding to a double\<close>

lemma round_half_even_of_int [simp]: "round_half_even (real_of_int n) = n"
  by (simp add: round_half_even_def)

lemma exponent2_bounds:
  "0 < x \<Longrightarrow> 2 powi exponent2 x \<le> x \<and> x < 2 powi (exponent2 x + 1)"
proof (induction x rule: exponent2.induct)
  case (1 x)
  show ?case
  proof (cases "2 \<le> x")
    case True
    with "1.prems" have e: "exponent2 x = exponent2 (x / 2) + 1"
      by (subst exponent2.simps) simp
    from "1.IH"(1) True "1.prems"
    have "2 powi exponent2 (x / 2) \<le> x / 2 \<and> x / 2 < 2 powi (exponent2 (x / 2) + 1)"
      by simp
    then show ?thesis
      unfolding e by (simp add: power_int_add field_simps)
  next
    case False
    show ?thesis
    proof (cases "x < 1")
      case True
      with False "1.prems" have e: "exponent2 x = exponent2 (x * 2) - 1"
        by (subst exponent2.simps) simp
      from "1.IH"(2) True False "1.prems"
      have "2 powi exponent2 (x * 2) \<le> x * 2 \<and> x * 2 < 2 powi (exponent2 (x * 2) + 1)"
        by simp
      then show ?thesis
        unfolding e by (simp add: power_int_add power_int_diff field_simps)
    next
      case ge: False
      with False "1.prems" have "exponent2 x = 0"
        by (subst exponent2.simps) simp
      with ge False show ?thesis by simp
    qed
  qed
qed

lemma exponent2_less:
  assumes "0 < x" and "x < 2 powi (k + 1)"
  shows "exponent2 x \<le> k"
proof (rule ccontr)
  assume "\<not> exponent2 x \<le> k"
  then have "k + 1 \<le> exponent2 x" by simp
  then have "(2::real) powi (k + 1) \<le> 2 powi exponent2 x"
    by (rule power_int_increasing) simp
  also have "\<dots> \<le> x" using exponent2_bounds [OF assms(1)] by simp
  finally show False using assms(2) by simp
qed

lemma round_double_dyadic:
  assumes n: "\<bar>n\<bar> < 2 ^ 53" and j: "- 1074 \<le> j"
  shows "round_double (real_of_int n * 2 powi j) = real_of_int n * 2 powi j"
proof (cases "n = 0")
  case True
  then show ?thesis by (simp add: round_double_def)
next
  case False
  define x where "x = real_of_int n * 2 powi j"
  have pj: "0 < (2::real) powi j" by simp
  have x0: "x \<noteq> 0" using False pj by (simp add: x_def)
  have absx: "\<bar>x\<bar> = real_of_int \<bar>n\<bar> * 2 powi j"
    by (simp add: x_def abs_mult)
  have "real_of_int \<bar>n\<bar> < 2 ^ 53" using n by (metis of_int_less_numeral_power_cancel_iff)
  then have "\<bar>x\<bar> < 2 ^ 53 * 2 powi j"
    unfolding absx using pj by (simp only: mult_strict_right_mono)
  also have "\<dots> = 2 powi (52 + j + 1)"
    by (simp add: power_int_add)
  finally have "exponent2 \<bar>x\<bar> \<le> 52 + j"
    using x0 by (intro exponent2_less) simp_all
  with j have "binade x - 52 \<le> j" by (simp add: binade_def)
  then obtain d where d: "j = (binade x - 52) + int d"
    by (metis add.commute zle_iff_zadd)
  have split: "(2::real) powi j = 2 powi (binade x - 52) * 2 ^ d"
    unfolding d by (simp add: power_int_add)
  have "\<bar>x\<bar> / 2 powi (binade x - 52) = real_of_int (\<bar>n\<bar> * 2 ^ d)"
    unfolding absx split by simp
  then have "round_half_even (\<bar>x\<bar> / 2 powi (binade x - 52)) = \<bar>n\<bar> * 2 ^ d"
    by (simp only: round_half_even_of_int)
  then have "round_double x = sgn x * real_of_int (\<bar>n\<bar> * 2 ^ d) * 2 powi (binade x - 52)"
    using x0 by (simp only: round_double_def if_False)
  also have "\<dots> = sgn x * (real_of_int \<bar>n\<bar> * 2 powi j)"
    unfolding split by simp
  also have "\<dots> = sgn x * \<bar>x\<bar>" by (simp only: absx)
  also have "\<dots> = x" by (simp add: sgn_mult_abs)
  finally show ?thesis by (simp only: x_def)
qed

lemma round_double_of_int:
  "\<bar>n\<bar> < 2 ^ 53 \<Longrightarrow> round_double (real_of_int n) = real_of_int n"
  using round_double_dyadic [of n 0] by simp

lemma round_double_numeral:
  "(numeral w :: int) < 2 ^ 53 \<Longrightarrow> round_double (numeral w) = numeral w"
  using round_double_of_int [of "numeral w"] by simp

lemma round_double_neg_numeral:
  "(numeral w :: int) < 2 ^ 53 \<Longrightarrow> round_double (- numeral w) = - numeral w"
  using round_double_of_int [of "- numeral w"] by simp

lemma round_double_half:
  "\<bar>n\<bar> < 2 ^ 53 \<Longrightarrow> round_double (real_of_int n / 2) = real_of_int n / 2"
  using round_double_dyadic [of n "- 1"] by simp

subsection \<open>The remainder and the correction loop\<close>

lemma c_rem_8_eq_0: "c_rem i 8 = 0 \<longleftrightarrow> i mod 8 = 0"
proof (cases "0 \<le> i")
  case True
  then show ?thesis
    by (cases "i = 0") (auto simp add: c_rem_def sgn_if minus_mult_div_eq_mod)
next
  case False
  then have "c_rem i 8 = - ((- i) mod 8)"
    by (simp add: c_rem_def sgn_if minus_mult_div_eq_mod [symmetric])
  then show ?thesis
    by (simp add: dvd_eq_mod_eq_0 [symmetric] )
qed

lemma y_correction_aligned:
  "int32_of_double y = Some i \<Longrightarrow> i mod 8 = 0 \<Longrightarrow> y_correction y = Inr y"
  by (subst y_correction.simps) (simp add: c_rem_8_eq_0)

lemma y_correction_step:
  "int32_of_double y = Some i \<Longrightarrow> i mod 8 \<noteq> 0 \<Longrightarrow>
     y_correction y = y_correction (y_correction_body y)"
  by (subst y_correction.simps) (simp add: c_rem_8_eq_0)

lemma y_correction_out_of_range:
  "int32_of_double y = None \<Longrightarrow> y_correction y = Inl CastOutOfRange"
  by (subst y_correction.simps) simp

lemma trunc_of_int [simp]: "trunc (real_of_int n) = n"
  by (simp add: trunc_def)

lemma int32_of_double_of_int:
  "- (2 ^ 31) \<le> n \<Longrightarrow> n < 2 ^ 31 \<Longrightarrow> int32_of_double (real_of_int n) = Some n"
  by (simp add: int32_of_double_def)

lemma y_correction_body_of_int: "y_correction_body (real_of_int n) = real_of_int (n - 1)"
  by (simp add: y_correction_body_def)

lemma y_correction_of_int_aux:
  "nat (n mod 8) = k \<Longrightarrow> - (2 ^ 31) \<le> n \<Longrightarrow> n < 2 ^ 31 \<Longrightarrow>
     y_correction (real_of_int n) = Inr (real_of_int (8 * (n div 8)))"
proof (induction k arbitrary: n)
  case 0
  then have m: "n mod 8 = 0" by simp
  then have "8 * (n div 8) = n" by presburger
  with 0 m show ?case
    by (simp add: y_correction_aligned [OF int32_of_double_of_int])
next
  case (Suc k)
  then have m: "n mod 8 \<noteq> 0" by auto
  from Suc.prems have low: "- (2 ^ 31) < n"
    by (cases "n = - (2 ^ 31)") auto
  have "0 \<le> n mod 8" by simp
  with m have r: "0 < n mod 8" "n mod 8 < 8"
    by simp_all
  have eq: "n - 1 = 8 * (n div 8) + (n mod 8 - 1)" by simp
  have pmod: "(n - 1) mod 8 = n mod 8 - 1"
    by (rule int_mod_pos_eq [OF eq]) (use r in simp_all)
  have pdiv: "(n - 1) div 8 = n div 8"
    by (rule int_div_pos_eq [OF eq]) (use r in simp_all)
  have pred: "nat ((n - 1) mod 8) = k"
    using Suc.prems(1) by (simp add: pmod)
  have "y_correction (real_of_int n) = y_correction (real_of_int (n - 1))"
    using y_correction_step [OF int32_of_double_of_int [OF Suc.prems(2,3)] m]
    by (simp only: y_correction_body_of_int)
  also have "\<dots> = Inr (real_of_int (8 * ((n - 1) div 8)))"
    using pred low Suc.prems(3) by (intro Suc.IH) auto
  finally show ?case by (simp only: pdiv)
qed

lemma y_correction_of_int:
  "- (2 ^ 31) \<le> n \<Longrightarrow> n < 2 ^ 31 \<Longrightarrow>
     y_correction (real_of_int n) = Inr (real_of_int (8 * (n div 8)))"
  by (rule y_correction_of_int_aux [OF refl])

lemma y_correction_body_less: "y_correction_body y < y"
  unfolding y_correction_body_def by linarith

subsection \<open>The blocks of UpdateEntity\<close>

lemma update_bounding_box_eq:
  "update_bounding_box e =
     e\<lparr>stBB := \<lparr>dBottom = double_add (dWorldPosY e) (real (unat (u8Height e))),
                 dLeft = dWorldPosX e,
                 dRight = double_add (dWorldPosX e) (real (unat (u8Width e))),
                 dTop = dWorldPosY e\<rparr>\<rparr>"
  by (simp add: update_bounding_box_def Let_def)

lemma update_velocity_eq:
  "update_velocity fl e dt =
     e\<lparr>dVelocityX := (if FLAG_IS_SET (u16Flags e) (ENTITY_IS_MOVING fl)
                       then dVelocityX e + dAcceleration e * dt
                       else dVelocityX e - dDeceleration e * dt)\<rparr>"
  by (simp add: update_velocity_def)

lemma limit_velocity_eq:
  "limit_velocity e =
     e\<lparr>dVelocityX :=
         (let v = (if dVelocityX e \<ge> dMaxVelocityX e then dMaxVelocityX e else dVelocityX e)
          in if v < 0 then 0 else v)\<rparr>"
  by (simp add: limit_velocity_def Let_def)

lemma set_horizontal_position_eq:
  "set_horizontal_position fl e dt =
     e\<lparr>dWorldPosX :=
         (if dVelocityX e > 0
          then (if FLAG_IS_SET (u16Flags e) (ENTITY_DIRECTION fl)
                then dWorldPosX e - dVelocityX e * dt
                else dWorldPosX e + dVelocityX e * dt)
          else dWorldPosX e)\<rparr>"
  by (simp add: set_horizontal_position_def)

lemma apply_gravity_mid_air:
  "FLAG_IS_SET (u16Flags e) (ENTITY_IS_IN_MID_AIR fl) \<Longrightarrow>
   apply_gravity fl e dt =
     Inr (e\<lparr>dDistanceY := dWorldMeterInPixel e * dWorldGravitation e * dt * dt,
            dVelocityY := dVelocityY e + dWorldMeterInPixel e * dWorldGravitation e * dt * dt,
            dWorldPosY := dWorldPosY e
               + (dVelocityY e + dWorldMeterInPixel e * dWorldGravitation e * dt * dt)\<rparr>)"
  by (simp add: apply_gravity_def Let_def)

lemma apply_gravity_grounded:
  "\<not> FLAG_IS_SET (u16Flags e) (ENTITY_IS_IN_MID_AIR fl) \<Longrightarrow>
   apply_gravity fl e dt =
     (case y_correction (dWorldPosY e) of
        Inl err \<Rightarrow> Inl err
      | Inr y \<Rightarrow> Inr (e\<lparr>dWorldPosY := y\<rparr>))"
  by (simp add: apply_gravity_def)

lemma connect_map_borders_eq:
  "connect_map_borders e =
     e\<lparr>dWorldPosX :=
         (let r = real (unat (u32MapWidth e - ucast (u8Width e)));
              l = - real (unat (u8Width e));
              x = (if dWorldPosX e < l then r else dWorldPosX e)
          in if x > r then l else x)\<rparr>"
  by (simp add: connect_map_borders_def Let_def)

lemma update_frame_eq:
  "update_frame e dt =
     (if dFrameAnimationFPS e = 0 then Inl DivisionByZero
      else
        (let f = (if u8Frame e < u8FrameStart e then u8FrameStart e else u8Frame e);
             fire = (dFrameDuration e + dt > 1 / dFrameAnimationFPS e);
             f' = (if fire then f + 1 else f)
         in Inr (e\<lparr>u8Frame := (if f' \<ge> u8FrameEnd e then u8FrameStart e else f'),
                   dFrameDuration := (if fire then 0 else dFrameDuration e + dt)\<rparr>)))"
  by (simp add: update_frame_def Let_def)


lemma apply_gravity_InrD:
  assumes "apply_gravity fl e dt = Inr e'"
  shows "\<exists>d vy y. e' = e\<lparr>dDistanceY := d, dVelocityY := vy, dWorldPosY := y\<rparr>"
proof (cases "FLAG_IS_SET (u16Flags e) (ENTITY_IS_IN_MID_AIR fl)")
  case True
  from assms show ?thesis
    unfolding apply_gravity_mid_air [OF True] by blast
next
  case False
  from assms obtain y where "e' = e\<lparr>dWorldPosY := y\<rparr>"
    unfolding apply_gravity_grounded [OF False] by (auto split: sum.splits)
  then have "e' = e\<lparr>dDistanceY := dDistanceY e, dVelocityY := dVelocityY e, dWorldPosY := y\<rparr>"
    by simp
  then show ?thesis by blast
qed

lemma update_frame_InrD:
  assumes "update_frame e dt = Inr e'"
  shows "\<exists>f d. e' = e\<lparr>u8Frame := f, dFrameDuration := d\<rparr>"
proof (cases "dFrameAnimationFPS e = 0")
  case True
  with assms show ?thesis by (simp add: update_frame_eq)
next
  case False
  from assms have "Inr e' = update_frame e dt" by simp
  also note update_frame_eq
  finally show ?thesis
    unfolding Let_def by (simp only: False if_False sum.inject) blast
qed

lemma UpdateEntity_InrD:
  assumes "UpdateEntity fl e dt = Inr e'"
  obtains e5 where
    "apply_gravity fl
       (set_horizontal_position fl (limit_velocity (update_velocity fl (update_bounding_box e) dt)) dt)
       dt = Inr e5"
    and "update_frame (connect_map_borders e5) dt = Inr e'"
  using assms unfolding UpdateEntity_def Let_def by (auto split: sum.splits)


lemmas stage_eqs =
  connect_map_borders_eq set_horizontal_position_eq limit_velocity_eq
  update_velocity_eq update_bounding_box_eq

lemma UpdateEntity_shape:
  assumes "UpdateEntity fl e dt = Inr e'"
  obtains dy vy y fr d where
    "e' = (connect_map_borders
            ((set_horizontal_position fl
                (limit_velocity (update_velocity fl (update_bounding_box e) dt)) dt)
              \<lparr>dDistanceY := dy, dVelocityY := vy, dWorldPosY := y\<rparr>))
          \<lparr>u8Frame := fr, dFrameDuration := d\<rparr>"
proof -
  from assms obtain e5 where
    g: "apply_gravity fl
       (set_horizontal_position fl (limit_velocity (update_velocity fl (update_bounding_box e) dt)) dt)
       dt = Inr e5"
    and f: "update_frame (connect_map_borders e5) dt = Inr e'"
    by (rule UpdateEntity_InrD)
  from update_frame_InrD [OF f] obtain fr d where
    e': "e' = (connect_map_borders e5)\<lparr>u8Frame := fr, dFrameDuration := d\<rparr>" by blast
  from apply_gravity_InrD [OF g] obtain dy vy y where
    e5: "e5 = (set_horizontal_position fl (limit_velocity (update_velocity fl (update_bounding_box e) dt)) dt)
       \<lparr>dDistanceY := dy, dVelocityY := vy, dWorldPosY := y\<rparr>" by blast
  from e' e5 that show thesis by blast
qed

lemma UpdateEntity_dVelocityX:
  assumes "UpdateEntity fl e dt = Inr e'"
  shows "dVelocityX e' = dVelocityX (limit_velocity (update_velocity fl e dt))"
  by (rule UpdateEntity_shape [OF assms]) (simp add: stage_eqs Let_def)

lemma UpdateEntity_unchanged:
  assumes "UpdateEntity fl e dt = Inr e'"
  shows "dAcceleration e' = dAcceleration e"
    and "dDeceleration e' = dDeceleration e"
    and "u16Flags e' = u16Flags e"
    and "u8Height e' = u8Height e"
    and "u8Width e' = u8Width e"
    and "u32MapWidth e' = u32MapWidth e"
    and "dFrameAnimationFPS e' = dFrameAnimationFPS e"
    and "u8FrameStart e' = u8FrameStart e"
    and "u8FrameEnd e' = u8FrameEnd e"
    and "u8FrameOffsetY e' = u8FrameOffsetY e"
    and "dMaxVelocityX e' = dMaxVelocityX e"
    and "dWorldMeterInPixel e' = dWorldMeterInPixel e"
    and "dWorldGravitation e' = dWorldGravitation e"
    and "pstSprite e' = pstSprite e"
    and "dInitialWorldPosX e' = dInitialWorldPosX e"
    and "dInitialWorldPosY e' = dInitialWorldPosY e"
  by (rule UpdateEntity_shape [OF assms], simp add: stage_eqs Let_def)+

lemma UpdateEntity_stBB:
  assumes "UpdateEntity fl e dt = Inr e'"
  shows "stBB e' = stBB (update_bounding_box e)"
  by (rule UpdateEntity_shape [OF assms]) (simp add: stage_eqs Let_def)

lemma UpdateEntity_dWorldPosX:
  assumes "UpdateEntity fl e dt = Inr e'"
  shows "dWorldPosX e' =
    dWorldPosX (connect_map_borders
      (set_horizontal_position fl (limit_velocity (update_velocity fl e dt)) dt))"
  by (rule UpdateEntity_shape [OF assms]) (simp add: stage_eqs Let_def)

subsection \<open>Evaluating the examples\<close>

lemma example_entity_eq:
  "example_entity = \<lparr>
        dAcceleration = 400,
        dDeceleration = 200,
        u16Flags = 0,
        u8Height = 32,
        u8Width = 16,
        u32MapWidth = 640,
        dFrameAnimationFPS = 20,
        u8FrameStart = 0,
        u8FrameEnd = 12,
        u8FrameOffsetY = 0,
        dMaxVelocityX = 100,
        dWorldMeterInPixel = 48,
        dWorldGravitation = 9.81,
        dWorldPosX = 100,
        dWorldPosY = 200,
        pstSprite = None,
        u8Frame = 0,
        dFrameDuration = 0,
        stBB = \<lparr>dBottom = 0, dLeft = 32, dRight = 16, dTop = 0\<rparr>,
        dInitialWorldPosX = 100,
        dInitialWorldPosY = 200,
        dDistanceY = 0,
        dVelocityX = 0,
        dVelocityY = 0\<rparr>"
  by (simp add: example_entity_def InitEntity_def)

lemma y_correction_200: "y_correction 200 = Inr 200"
  using y_correction_of_int [of 200] by simp

lemma FLAG_IS_SET_bit: "FLAG_IS_SET field flag \<longleftrightarrow> bit field flag"
  by (simp add: FLAG_IS_SET_def bit_iff_and_drop_bit_eq_1 and_one_eq one_and_eq mod_2_eq_odd bit_iff_odd_drop_bit)


lemmas eval_simps =
  UpdateEntity_def stage_eqs update_frame_eq apply_gravity_def Let_def
  example_entity_eq example_flags_def FLAG_IS_SET_bit
  word_le_nat_alt word_less_nat_alt
  double_add_def round_double_numeral round_double_neg_numeral

lemma moving_step:
  "UpdateEntity example_flags (example_entity\<lparr>u16Flags := 4\<rparr>) (1 / 10) =
     Inr (example_entity\<lparr>u16Flags := 4,
            stBB := \<lparr>dBottom = 232, dLeft = 100, dRight = 116, dTop = 200\<rparr>,
            dVelocityX := 40, dWorldPosX := 104, u8Frame := 1\<rparr>)"
  by (simp add: eval_simps y_correction_200)

subsection \<open>Clearing a flag\<close>

lemma bit_clear_flag: "bit (clear_flag f k) n \<longleftrightarrow> bit f n \<and> n \<noteq> k"
  unfolding clear_flag_def
  by (auto simp add: bit_simps dest: bit_imp_le_length)

lemma FLAG_IS_SET_clear_flag:
  "FLAG_IS_SET (clear_flag f k) n \<longleftrightarrow> FLAG_IS_SET f n \<and> n \<noteq> k"
  by (simp add: FLAG_IS_SET_bit bit_clear_flag)

subsection \<open>The vertical motion\<close>

lemma apply_gravity_vertical:
  "apply_gravity fl e dt = Inr e' \<Longrightarrow>
   u16Flags e0 = u16Flags e \<Longrightarrow> dWorldMeterInPixel e0 = dWorldMeterInPixel e \<Longrightarrow>
   dWorldGravitation e0 = dWorldGravitation e \<Longrightarrow> dVelocityY e0 = dVelocityY e \<Longrightarrow>
   dWorldPosY e0 = dWorldPosY e \<Longrightarrow> dDistanceY e0 = dDistanceY e \<Longrightarrow>
   \<exists>e0'. apply_gravity fl e0 dt = Inr e0' \<and> dDistanceY e0' = dDistanceY e'
      \<and> dVelocityY e0' = dVelocityY e' \<and> dWorldPosY e0' = dWorldPosY e'"
  by (auto simp add: apply_gravity_def Let_def split: if_splits sum.splits)

lemma UpdateEntity_apply_gravity:
  assumes "UpdateEntity fl e dt = Inr e'"
  shows "\<exists>e5. apply_gravity fl e dt = Inr e5 \<and> dDistanceY e' = dDistanceY e5
      \<and> dVelocityY e' = dVelocityY e5 \<and> dWorldPosY e' = dWorldPosY e5"
proof -
  let ?e4 = "set_horizontal_position fl
               (limit_velocity (update_velocity fl (update_bounding_box e) dt)) dt"
  from assms obtain e5 where
    g: "apply_gravity fl ?e4 dt = Inr e5"
    and f: "update_frame (connect_map_borders e5) dt = Inr e'"
    by (rule UpdateEntity_InrD)
  from update_frame_InrD [OF f] obtain fr d where
    e': "e' = (connect_map_borders e5)\<lparr>u8Frame := fr, dFrameDuration := d\<rparr>" by blast
  have same: "dDistanceY e' = dDistanceY e5" "dVelocityY e' = dVelocityY e5"
    "dWorldPosY e' = dWorldPosY e5"
    unfolding e' by (simp_all add: connect_map_borders_eq Let_def)
  have "\<exists>e0'. apply_gravity fl e dt = Inr e0' \<and> dDistanceY e0' = dDistanceY e5
      \<and> dVelocityY e0' = dVelocityY e5 \<and> dWorldPosY e0' = dWorldPosY e5"
    by (rule apply_gravity_vertical [OF g]) (simp_all add: stage_eqs Let_def)
  with same show ?thesis by auto
qed

subsection \<open>The width of the map\<close>

lemma unat_map_minus_width:
  fixes m :: uint32_t and w :: uint8_t
  assumes "unat w \<le> unat m"
  shows "real (unat (m - ucast w)) = real (unat m) - real (unat w)"
proof -
  have "unat w < 2 ^ LENGTH(8)" by (rule unsigned_less)
  then have "unat w < 2 ^ 32" by simp
  then have u: "unat (ucast w :: uint32_t) = unat w"
    by (simp add: unsigned_ucast_eq take_bit_nat_eq_self)
  with assms have "(ucast w :: uint32_t) \<le> m"
    by (simp add: word_le_nat_alt)
  then have "unat (m - ucast w) = unat m - unat (ucast w :: uint32_t)"
    by (rule unat_sub)
  with u assms show ?thesis by (simp add: of_nat_diff)
qed

subsection \<open>The frame\<close>

lemma UpdateEntity_update_frame:
  assumes "UpdateEntity fl e dt = Inr e'"
  shows "dFrameAnimationFPS e \<noteq> 0"
    and "u8Frame e' =
      (let f = (if u8Frame e < u8FrameStart e then u8FrameStart e else u8Frame e);
           f' = (if dFrameDuration e + dt > 1 / dFrameAnimationFPS e then f + 1 else f)
       in if f' \<ge> u8FrameEnd e then u8FrameStart e else f')"
    and "dFrameDuration e' =
      (if dFrameDuration e + dt > 1 / dFrameAnimationFPS e then 0 else dFrameDuration e + dt)"
proof -
  let ?e4 = "set_horizontal_position fl
               (limit_velocity (update_velocity fl (update_bounding_box e) dt)) dt"
  from assms obtain e5 where
    g: "apply_gravity fl ?e4 dt = Inr e5"
    and f: "update_frame (connect_map_borders e5) dt = Inr e'"
    by (rule UpdateEntity_InrD)
  from apply_gravity_InrD [OF g] obtain dy vy y where
    e5: "e5 = ?e4\<lparr>dDistanceY := dy, dVelocityY := vy, dWorldPosY := y\<rparr>" by blast
  let ?e6 = "connect_map_borders e5"
  have same: "dFrameAnimationFPS ?e6 = dFrameAnimationFPS e" "u8Frame ?e6 = u8Frame e"
    "u8FrameStart ?e6 = u8FrameStart e" "u8FrameEnd ?e6 = u8FrameEnd e"
    "dFrameDuration ?e6 = dFrameDuration e"
    unfolding e5 by (simp_all add: stage_eqs Let_def)
  from f show fps: "dFrameAnimationFPS e \<noteq> 0"
    unfolding update_frame_eq same by (auto split: if_splits)
  from f fps show "u8Frame e' =
      (let f = (if u8Frame e < u8FrameStart e then u8FrameStart e else u8Frame e);
           f' = (if dFrameDuration e + dt > 1 / dFrameAnimationFPS e then f + 1 else f)
       in if f' \<ge> u8FrameEnd e then u8FrameStart e else f')"
    unfolding update_frame_eq same by (auto simp add: Let_def)
  from f fps show "dFrameDuration e' =
      (if dFrameDuration e + dt > 1 / dFrameAnimationFPS e then 0 else dFrameDuration e + dt)"
    unfolding update_frame_eq same by (auto simp add: Let_def)
qed

lemma unat_u8_Suc:
  fixes x :: uint8_t
  assumes "unat x < 255"
  shows "unat (x + 1) = unat x + 1"
proof -
  from assms have "unat x + unat (1 :: uint8_t) < 2 ^ LENGTH(8)" by simp
  then have "unat (x + 1) = unat x + unat (1 :: uint8_t)"
    by (simp only: unat_add_lem)
  then show ?thesis by simp
qed

lemma frame_in_range:
  fixes f s n :: uint8_t
  assumes "s < n" and "f < 255"
  shows "s \<le> (let f0 = (if f < s then s else f); f' = (if fire then f0 + 1 else f0)
               in if f' \<ge> n then s else f')
    \<and> (let f0 = (if f < s then s else f); f' = (if fire then f0 + 1 else f0)
               in if f' \<ge> n then s else f') < n"
proof -
  define f0 where "f0 = (if f < s then s else f)"
  have "unat n < 2 ^ LENGTH(8)" by (rule unsigned_less)
  with assms have nat: "unat s < unat n" "unat f < 255" "unat n \<le> 255"
    by (simp_all add: word_less_nat_alt)
  then have f0: "unat s \<le> unat f0" "unat f0 < 255"
    by (auto simp add: f0_def word_less_nat_alt)
  then have suc: "unat (f0 + 1) = unat f0 + 1"
    by (simp add: unat_u8_Suc)
  have "unat s \<le> unat (if (if fire then f0 + 1 else f0) \<ge> n then s else (if fire then f0 + 1 else f0))
    \<and> unat (if (if fire then f0 + 1 else f0) \<ge> n then s else (if fire then f0 + 1 else f0)) < unat n"
    using nat f0 by (cases fire) (auto simp add: word_le_nat_alt suc)
  then show ?thesis
    unfolding Let_def f0_def by (simp only: word_le_nat_alt word_less_nat_alt)
qed

subsection \<open>The update of an entity on the ground\<close>

lemma UpdateEntity_returns:
  assumes "apply_gravity fl e dt = Inr e5" and "dFrameAnimationFPS e \<noteq> 0"
  shows "\<exists>e'. UpdateEntity fl e dt = Inr e'"
proof -
  let ?e4 = "set_horizontal_position fl
               (limit_velocity (update_velocity fl (update_bounding_box e) dt)) dt"
  have "\<exists>e0'. apply_gravity fl ?e4 dt = Inr e0' \<and> dDistanceY e0' = dDistanceY e5
      \<and> dVelocityY e0' = dVelocityY e5 \<and> dWorldPosY e0' = dWorldPosY e5"
    by (rule apply_gravity_vertical [OF assms(1)]) (simp_all add: stage_eqs Let_def)
  then obtain e0' where g: "apply_gravity fl ?e4 dt = Inr e0'" by blast
  from apply_gravity_InrD [OF g] obtain dy vy y where
    e0': "e0' = ?e4\<lparr>dDistanceY := dy, dVelocityY := vy, dWorldPosY := y\<rparr>" by blast
  have "dFrameAnimationFPS (connect_map_borders e0') = dFrameAnimationFPS e"
    unfolding e0' by (simp add: stage_eqs Let_def)
  with assms(2) have "\<exists>e'. update_frame (connect_map_borders e0') dt = Inr e'"
    by (simp add: update_frame_eq Let_def)
  with g show ?thesis
    by (simp add: UpdateEntity_def Let_def)
qed

lemma UpdateEntity_grounded:
  assumes "\<not> FLAG_IS_SET (u16Flags e) (ENTITY_IS_IN_MID_AIR fl)"
  shows "UpdateEntity fl e dt = Inr e' \<Longrightarrow> y_correction (dWorldPosY e) = Inr (dWorldPosY e')"
    and "y_correction (dWorldPosY e) = Inr y \<Longrightarrow> dFrameAnimationFPS e \<noteq> 0 \<Longrightarrow>
      \<exists>e'. UpdateEntity fl e dt = Inr e' \<and> dWorldPosY e' = y"
proof -
  show *: "y_correction (dWorldPosY e) = Inr (dWorldPosY e')" if "UpdateEntity fl e dt = Inr e'" for e'
  proof -
    from UpdateEntity_apply_gravity [OF that] obtain e5 where
      g: "apply_gravity fl e dt = Inr e5" and y: "dWorldPosY e' = dWorldPosY e5" by blast
    from g assms show ?thesis
      unfolding y by (auto simp add: apply_gravity_grounded split: sum.splits)
  qed
  show "\<exists>e'. UpdateEntity fl e dt = Inr e' \<and> dWorldPosY e' = y"
    if y: "y_correction (dWorldPosY e) = Inr y" and fps: "dFrameAnimationFPS e \<noteq> 0"
  proof -
    from assms y have "apply_gravity fl e dt = Inr (e\<lparr>dWorldPosY := y\<rparr>)"
      by (simp add: apply_gravity_grounded)
    from UpdateEntity_returns [OF this fps] obtain e' where e': "UpdateEntity fl e dt = Inr e'"
      by blast
    from * [OF e'] y have "dWorldPosY e' = y" by simp
    with e' show ?thesis by blast
  qed
qed

lemma y_correction_aligned_trunc:
  assumes "- (2 ^ 31) \<le> trunc y" "trunc y < 2 ^ 31" "trunc y mod 8 = 0"
  shows "y_correction y = Inr y"
proof -
  from assms(1,2) have "int32_of_double y = Some (trunc y)"
    by (simp add: int32_of_double_def)
  from this assms(3) show ?thesis by (rule y_correction_aligned)
qed

lemma y_correction_Ints:
  assumes "y \<in> \<int>" "- (2 ^ 31) \<le> y" "y < 2 ^ 31"
  shows "y_correction y = Inr (8 * real_of_int \<lfloor>y / 8\<rfloor>)"
proof -
  from assms(1) obtain n where n: "y = real_of_int n" by (rule Ints_cases)
  from assms(2,3) have range: "- (2 ^ 31) \<le> n" "n < 2 ^ 31"
    unfolding n by simp_all
  have "\<lfloor>real_of_int n / 8\<rfloor> = n div 8"
    using floor_divide_of_int_eq [of n 8, where ?'a = real] by simp
  with y_correction_of_int [OF range] show ?thesis
    unfolding n by simp
qed


lemma y_correction_Inr_range:
  assumes "y_correction y = Inr y'"
  shows "int32_of_double y = Some (trunc y)"
proof (cases "int32_of_double y")
  case None
  with assms show ?thesis by (simp add: y_correction_out_of_range)
next
  case (Some i)
  then show ?thesis by (simp add: int32_of_double_def split: if_splits)
qed

lemma y_correction_17: "y_correction 17 = Inr 16"
  using y_correction_of_int [of 17] by simp

lemma y_correction_16: "y_correction 16 = Inr 16"
  using y_correction_of_int [of 16] by simp

lemma y_correction_33_2: "y_correction (33 / 2) = Inr (33 / 2)"
  by (rule y_correction_aligned_trunc) (simp_all add: trunc_def)

lemma UpdateEntity_frames_16:
  assumes "\<not> FLAG_IS_SET (u16Flags e) (ENTITY_IS_IN_MID_AIR fl)"
    and "dFrameAnimationFPS e \<noteq> 0"
    and "dWorldPosY e = 16"
  shows "\<exists>e'. UpdateEntity_frames fl e dts = Inr e' \<and> dWorldPosY e' = 16"
  using assms
proof (induction dts arbitrary: e)
  case Nil
  then show ?case by simp
next
  case (Cons dt dts)
  from Cons.prems(3) have "y_correction (dWorldPosY e) = Inr 16"
    by (simp add: y_correction_16)
  from UpdateEntity_grounded(2) [OF Cons.prems(1) this Cons.prems(2)]
  obtain e1 where e1: "UpdateEntity fl e dt = Inr e1" "dWorldPosY e1 = 16" by blast
  have "u16Flags e1 = u16Flags e" "dFrameAnimationFPS e1 = dFrameAnimationFPS e"
    using e1(1) by (rule UpdateEntity_unchanged)+
  with Cons.prems have "\<not> FLAG_IS_SET (u16Flags e1) (ENTITY_IS_IN_MID_AIR fl)"
    "dFrameAnimationFPS e1 \<noteq> 0" by simp_all
  from Cons.IH [OF this e1(2)] e1(1) show ?case by simp
qed

subsection \<open>Sums that are exact, and one that is not\<close>

lemma round_double_quarter:
  "\<bar>n\<bar> < 2 ^ 53 \<Longrightarrow> round_double (real_of_int n / 4) = real_of_int n / 4"
  using round_double_dyadic [of n "- 2"] by simp

lemma double_add_Ints:
  fixes w :: uint8_t
  assumes "x \<in> \<int>" and "\<bar>x\<bar> < 2 ^ 52"
  shows "double_add x (real (unat w)) = x + real (unat w)"
proof -
  from assms(1) obtain m where m: "x = real_of_int m" by (rule Ints_cases)
  from assms(2) have "\<bar>m\<bar> < 4503599627370496" unfolding m by (simp flip: of_int_abs)
  moreover have "uint w < 2 ^ LENGTH(8)" by (rule unsigned_less)
  then have "uint w < 256" by simp
  moreover have "0 \<le> uint w" by simp
  ultimately have "\<bar>m + uint w\<bar> < 9007199254740992" by linarith
  then have "\<bar>m + uint w\<bar> < 2 ^ 53" by simp
  then have "round_double (real_of_int (m + uint w)) = real_of_int (m + uint w)"
    by (rule round_double_of_int)
  then show ?thesis
    by (simp add: double_add_def m)
qed

lemma binade_double_0_4: "binade (2 / 5) = - 2"
  by (simp add: binade_def exponent2.simps)

lemma round_double_0_4: "round_double (2 / 5) = 3602879701896397 / 9007199254740992"
  by (simp add: round_double_def binade_double_0_4 round_half_even_def)

lemma binade_16_4: "binade (147718067777752269 / 9007199254740992) = 4"
  by (simp add: binade_def exponent2.simps)

lemma round_double_16_4:
  "round_double (147718067777752269 / 9007199254740992) = 4616189618054758 / 281474976710656"
  by (simp add: round_double_def binade_16_4 round_half_even_def)

lemma binade_diff: "binade (144115188075855859 / 9007199254740992) = 3"
  by (simp add: binade_def exponent2.simps)

lemma round_double_diff:
  "round_double (144115188075855859 / 9007199254740992) = 9007199254740991 / 562949953421312"
  by (simp add: round_double_def binade_diff round_half_even_def)

subsection \<open>Where the call returns\<close>

lemma trunc_range:
  assumes "- (2 ^ 31) + 1 \<le> y" and "y < 2 ^ 31"
  shows "int32_of_double y = Some (trunc y)" and "- (2 ^ 31) + 1 \<le> \<lfloor>y\<rfloor>" and "\<lfloor>y\<rfloor> < 2 ^ 31"
proof -
  from assms(1) have "real_of_int (- (2 ^ 31) + 1) \<le> y" by simp
  then show lo: "- (2 ^ 31) + 1 \<le> \<lfloor>y\<rfloor>" by (simp only: le_floor_iff)
  from assms(2) have "y < real_of_int (2 ^ 31)" by simp
  then show hi: "\<lfloor>y\<rfloor> < 2 ^ 31" by (simp only: floor_less_iff)
  have "\<lfloor>y\<rfloor> \<le> \<lceil>y\<rceil>" by (rule floor_le_ceiling)
  moreover have "\<lceil>y\<rceil> \<le> 0" if "y < 0" using that by (simp add: ceiling_le_iff)
  ultimately have "- (2 ^ 31) \<le> trunc y" "trunc y < 2 ^ 31"
    using lo hi by (auto simp add: trunc_def)
  then show "int32_of_double y = Some (trunc y)"
    by (simp add: int32_of_double_def)
qed

lemma y_correction_eq:
  assumes "- (2 ^ 31) + 1 \<le> y" and "y < 2 ^ 31"
  shows "y_correction y =
    Inr (if trunc y mod 8 = 0 then y else real_of_int (8 * ((\<lfloor>y\<rfloor> - 1) div 8)))"
proof (cases "trunc y mod 8 = 0")
  case True
  with y_correction_aligned [OF trunc_range(1) [OF assms]] show ?thesis by simp
next
  case False
  from trunc_range(2,3) [OF assms] have "- (2 ^ 31) \<le> \<lfloor>y\<rfloor> - 1" "\<lfloor>y\<rfloor> - 1 < 2 ^ 31"
    by simp_all
  then have "y_correction (real_of_int (\<lfloor>y\<rfloor> - 1)) = Inr (real_of_int (8 * ((\<lfloor>y\<rfloor> - 1) div 8)))"
    by (rule y_correction_of_int)
  moreover have "y_correction_body y = real_of_int (\<lfloor>y\<rfloor> - 1)"
    by (simp add: y_correction_body_def)
  ultimately show ?thesis
    using y_correction_step [OF trunc_range(1) [OF assms] False] False by simp
qed

lemma UpdateEntity_total:
  assumes "dFrameAnimationFPS e \<noteq> 0"
    and "FLAG_IS_SET (u16Flags e) (ENTITY_IS_IN_MID_AIR fl)
         \<or> (- (2 ^ 31) + 1 \<le> dWorldPosY e \<and> dWorldPosY e < 2 ^ 31)"
  shows "\<exists>e'. UpdateEntity fl e dt = Inr e'"
proof (cases "FLAG_IS_SET (u16Flags e) (ENTITY_IS_IN_MID_AIR fl)")
  case True
  from apply_gravity_mid_air [OF True] assms(1) show ?thesis
    by (rule UpdateEntity_returns)
next
  case False
  with assms(2) have "- (2 ^ 31) + 1 \<le> dWorldPosY e" "dWorldPosY e < 2 ^ 31" by simp_all
  then have "\<exists>y. y_correction (dWorldPosY e) = Inr y"
    by (simp add: y_correction_eq)
  then obtain y where "apply_gravity fl e dt = Inr (e\<lparr>dWorldPosY := y\<rparr>)"
    using False by (auto simp add: apply_gravity_grounded)
  from this assms(1) show ?thesis by (rule UpdateEntity_returns)
qed

lemma y_correction_95_4: "y_correction (95 / 4) = Inr 16"
  using y_correction_eq [of "95 / 4"] by (simp add: trunc_def)

section \<open>The claims\<close>

subsection \<open>C1: the velocity limits\<close>

text \<open>
  C1, for a ceiling that is not negative. For every entity state with
  \<open>0 \<le> dMaxVelocityX\<close> on which the call is defined (\<open>dFrameAnimationFPS\<close> is not 0
  and, with \<open>ENTITY_IS_IN_MID_AIR\<close> clear, \<open>dWorldPosY\<close> is at least \<open>- 2 ^ 31 + 1\<close> and
  below \<open>2 ^ 31\<close>) and every time step, \<open>UpdateEntity\<close> returns, and then \<open>dVelocityX\<close>
  lies between 0 and \<open>dMaxVelocityX\<close>: the velocity after the integration step (plus
  \<open>dAcceleration * dDeltaTime\<close> when \<open>ENTITY_IS_MOVING\<close> is set, minus
  \<open>dDeceleration * dDeltaTime\<close> otherwise) becomes 0 when it is below 0, becomes
  \<open>dMaxVelocityX\<close> when it is at or above it, and is kept otherwise, whatever the
  velocity was before.
\<close>

theorem UpdateEntity_velocity_limits:
  assumes "dFrameAnimationFPS e \<noteq> 0"
    and "FLAG_IS_SET (u16Flags e) (ENTITY_IS_IN_MID_AIR fl)
         \<or> (- (2 ^ 31) + 1 \<le> dWorldPosY e \<and> dWorldPosY e < 2 ^ 31)"
    and "0 \<le> dMaxVelocityX e"
  shows "\<exists>e'. UpdateEntity fl e dt = Inr e'
    \<and> 0 \<le> dVelocityX e' \<and> dVelocityX e' \<le> dMaxVelocityX e'
    \<and> dVelocityX e' =
      (let v = (if FLAG_IS_SET (u16Flags e) (ENTITY_IS_MOVING fl)
                then dVelocityX e + dAcceleration e * dt
                else dVelocityX e - dDeceleration e * dt)
       in if v < 0 then 0 else if v \<ge> dMaxVelocityX e then dMaxVelocityX e else v)"
proof -
  from UpdateEntity_total [OF assms(1,2)] obtain e' where e': "UpdateEntity fl e dt = Inr e'"
    by blast
  have v: "dVelocityX e' = dVelocityX (limit_velocity (update_velocity fl e dt))"
    using e' by (rule UpdateEntity_dVelocityX)
  have m: "dMaxVelocityX e' = dMaxVelocityX e"
    using e' by (rule UpdateEntity_unchanged)
  have "0 \<le> dVelocityX e' \<and> dVelocityX e' \<le> dMaxVelocityX e'
    \<and> dVelocityX e' =
      (let v = (if FLAG_IS_SET (u16Flags e) (ENTITY_IS_MOVING fl)
                then dVelocityX e + dAcceleration e * dt
                else dVelocityX e - dDeceleration e * dt)
       in if v < 0 then 0 else if v \<ge> dMaxVelocityX e then dMaxVelocityX e else v)"
    unfolding v m using assms(3)
    by (simp add: limit_velocity_eq update_velocity_eq Let_def)
  with e' show ?thesis by blast
qed

theorem UpdateEntity_velocity_limits_witness:
  "dFrameAnimationFPS (example_entity\<lparr>u16Flags := 4, dVelocityX := 90\<rparr>) = 20
   \<and> dWorldPosY (example_entity\<lparr>u16Flags := 4, dVelocityX := 90\<rparr>) = 200
   \<and> dMaxVelocityX (example_entity\<lparr>u16Flags := 4, dVelocityX := 90\<rparr>) = 100
   \<and> UpdateEntity example_flags (example_entity\<lparr>u16Flags := 4, dVelocityX := 90\<rparr>) (1 / 10) =
     Inr (example_entity\<lparr>u16Flags := 4,
            stBB := \<lparr>dBottom = 232, dLeft = 100, dRight = 116, dTop = 200\<rparr>,
            dVelocityX := 100, dWorldPosX := 110, u8Frame := 1\<rparr>)
   \<and> dVelocityX (example_entity\<lparr>u16Flags := 4,
            stBB := \<lparr>dBottom = 232, dLeft = 100, dRight = 116, dTop = 200\<rparr>,
            dVelocityX := 100, dWorldPosX := 110, u8Frame := 1\<rparr>) = 100"
proof -
  let ?e = "example_entity\<lparr>u16Flags := 4, dVelocityX := 90\<rparr>"
  have step:
    "UpdateEntity example_flags ?e (1 / 10) =
       Inr (example_entity\<lparr>u16Flags := 4,
            stBB := \<lparr>dBottom = 232, dLeft = 100, dRight = 116, dTop = 200\<rparr>,
            dVelocityX := 100, dWorldPosX := 110, u8Frame := 1\<rparr>)"
    by (simp add: eval_simps y_correction_200)
  have pre: "dFrameAnimationFPS ?e \<noteq> 0"
    "FLAG_IS_SET (u16Flags ?e) (ENTITY_IS_IN_MID_AIR example_flags)
         \<or> (- (2 ^ 31) + 1 \<le> dWorldPosY ?e \<and> dWorldPosY ?e < 2 ^ 31)"
    "0 \<le> dMaxVelocityX ?e"
    by (simp_all add: example_entity_eq)
  from UpdateEntity_velocity_limits [OF pre, of "1 / 10"] step show ?thesis
    by (simp add: example_entity_eq)
qed

theorem UpdateEntity_velocity_limits_counterexample:
  "(0 :: real) \<le> 1 / 10
   \<and> UpdateEntity example_flags (example_entity\<lparr>dMaxVelocityX := - 1\<rparr>) (1 / 10) =
     Inr (example_entity\<lparr>dMaxVelocityX := - 1,
            stBB := \<lparr>dBottom = 232, dLeft = 100, dRight = 116, dTop = 200\<rparr>,
            u8Frame := 1\<rparr>)
   \<and> \<not> (dVelocityX (example_entity\<lparr>dMaxVelocityX := - 1,
            stBB := \<lparr>dBottom = 232, dLeft = 100, dRight = 116, dTop = 200\<rparr>,
            u8Frame := 1\<rparr>)
         \<le> dMaxVelocityX (example_entity\<lparr>dMaxVelocityX := - 1,
            stBB := \<lparr>dBottom = 232, dLeft = 100, dRight = 116, dTop = 200\<rparr>,
            u8Frame := 1\<rparr>))"
  by (simp add: eval_simps y_correction_200)

subsection \<open>C2: the bounding box\<close>

text \<open>
  C2, with the sums as doubles. For every entity state on which the call is defined
  (\<open>dFrameAnimationFPS\<close> is not 0 and, with \<open>ENTITY_IS_IN_MID_AIR\<close> clear, \<open>dWorldPosY\<close>
  is at least \<open>- 2 ^ 31 + 1\<close> and below \<open>2 ^ 31\<close>) and every time step, \<open>UpdateEntity\<close>
  returns, and then the bounding box is the one of the position on entry to the call,
  read before the call moves the entity: top \<open>dWorldPosY\<close>, left \<open>dWorldPosX\<close>, right
  the double sum \<open>dWorldPosX + u8Width\<close>, bottom the double sum
  \<open>dWorldPosY + u8Height\<close>. Right minus left is the width when \<open>dWorldPosX\<close> is a whole
  number below \<open>2 ^ 52\<close> in magnitude, where the sum is exact, and bottom minus top is
  the height when \<open>dWorldPosY\<close> is; otherwise the sum is rounded and the difference
  need not be the width or the height.
\<close>

theorem UpdateEntity_bounding_box:
  assumes "dFrameAnimationFPS e \<noteq> 0"
    and "FLAG_IS_SET (u16Flags e) (ENTITY_IS_IN_MID_AIR fl)
         \<or> (- (2 ^ 31) + 1 \<le> dWorldPosY e \<and> dWorldPosY e < 2 ^ 31)"
  shows "\<exists>e'. UpdateEntity fl e dt = Inr e'
    \<and> stBB e' = \<lparr>dBottom = double_add (dWorldPosY e) (real (unat (u8Height e))),
                  dLeft = dWorldPosX e,
                  dRight = double_add (dWorldPosX e) (real (unat (u8Width e))),
                  dTop = dWorldPosY e\<rparr>
    \<and> (dWorldPosX e \<in> \<int> \<and> \<bar>dWorldPosX e\<bar> < 2 ^ 52 \<longrightarrow>
          dRight (stBB e') - dLeft (stBB e') = real (unat (u8Width e')))
    \<and> (dWorldPosY e \<in> \<int> \<and> \<bar>dWorldPosY e\<bar> < 2 ^ 52 \<longrightarrow>
          dBottom (stBB e') - dTop (stBB e') = real (unat (u8Height e')))"
proof -
  from UpdateEntity_total [OF assms] obtain e' where e': "UpdateEntity fl e dt = Inr e'"
    by blast
  have "stBB e' = stBB (update_bounding_box e)"
    using e' by (rule UpdateEntity_stBB)
  then have box: "stBB e' =
      \<lparr>dBottom = double_add (dWorldPosY e) (real (unat (u8Height e))),
       dLeft = dWorldPosX e,
       dRight = double_add (dWorldPosX e) (real (unat (u8Width e))),
       dTop = dWorldPosY e\<rparr>"
    by (simp add: update_bounding_box_eq del: of_nat_unat)
  have same: "u8Width e' = u8Width e" "u8Height e' = u8Height e"
    using e' by (rule UpdateEntity_unchanged)+
  have "dRight (stBB e') - dLeft (stBB e') = real (unat (u8Width e'))"
    if "dWorldPosX e \<in> \<int> \<and> \<bar>dWorldPosX e\<bar> < 2 ^ 52"
  proof -
    from that have "double_add (dWorldPosX e) (real (unat (u8Width e)))
        = dWorldPosX e + real (unat (u8Width e))"
      by (simp only: double_add_Ints)
    then show ?thesis unfolding box same by simp
  qed
  moreover have "dBottom (stBB e') - dTop (stBB e') = real (unat (u8Height e'))"
    if "dWorldPosY e \<in> \<int> \<and> \<bar>dWorldPosY e\<bar> < 2 ^ 52"
  proof -
    from that have "double_add (dWorldPosY e) (real (unat (u8Height e)))
        = dWorldPosY e + real (unat (u8Height e))"
      by (simp only: double_add_Ints)
    then show ?thesis unfolding box same by simp
  qed
  ultimately show ?thesis using e' box by blast
qed

theorem UpdateEntity_bounding_box_witness:
  "dFrameAnimationFPS (example_entity\<lparr>u16Flags := 4\<rparr>) = 20
   \<and> dWorldPosX (example_entity\<lparr>u16Flags := 4\<rparr>) = 100
   \<and> dWorldPosY (example_entity\<lparr>u16Flags := 4\<rparr>) = 200
   \<and> (100 :: real) \<in> \<int> \<and> \<bar>100 :: real\<bar> < 2 ^ 52
   \<and> (200 :: real) \<in> \<int> \<and> \<bar>200 :: real\<bar> < 2 ^ 52
   \<and> UpdateEntity example_flags (example_entity\<lparr>u16Flags := 4\<rparr>) (1 / 10) =
     Inr (example_entity\<lparr>u16Flags := 4,
            stBB := \<lparr>dBottom = 232, dLeft = 100, dRight = 116, dTop = 200\<rparr>,
            dVelocityX := 40, dWorldPosX := 104, u8Frame := 1\<rparr>)
   \<and> double_add 100 16 = 116 \<and> double_add 200 32 = 232
   \<and> (116 :: real) - 100 = 16 \<and> (232 :: real) - 200 = 32"
proof -
  let ?e = "example_entity\<lparr>u16Flags := 4\<rparr>"
  have pre: "dFrameAnimationFPS ?e \<noteq> 0"
    "FLAG_IS_SET (u16Flags ?e) (ENTITY_IS_IN_MID_AIR example_flags)
         \<or> (- (2 ^ 31) + 1 \<le> dWorldPosY ?e \<and> dWorldPosY ?e < 2 ^ 31)"
    by (simp_all add: example_entity_eq)
  from UpdateEntity_bounding_box [OF pre, of "1 / 10"] moving_step show ?thesis
    by (simp add: example_entity_eq double_add_def round_double_numeral)
qed

theorem UpdateEntity_bounding_box_counterexample:
  "round_double (2 / 5) = 3602879701896397 / 9007199254740992
   \<and> UpdateEntity example_flags
        (example_entity\<lparr>dWorldPosX := 3602879701896397 / 9007199254740992\<rparr>) (1 / 10) =
     Inr (example_entity\<lparr>dWorldPosX := 3602879701896397 / 9007199254740992,
            stBB := \<lparr>dBottom = 232,
                     dLeft = 3602879701896397 / 9007199254740992,
                     dRight = 4616189618054758 / 281474976710656,
                     dTop = 200\<rparr>,
            u8Frame := 1\<rparr>)
   \<and> (4616189618054758 / 281474976710656 - 3602879701896397 / 9007199254740992 :: real)
       \<noteq> real (unat (u8Width example_entity))
   \<and> round_double (4616189618054758 / 281474976710656 - 3602879701896397 / 9007199254740992)
       = 9007199254740991 / 562949953421312
   \<and> (9007199254740991 / 562949953421312 :: real) \<noteq> real (unat (u8Width example_entity))"
  by (simp add: eval_simps y_correction_200 round_double_0_4 round_double_16_4
      round_double_diff)

subsection \<open>C3: InitEntity\<close>

text \<open>
  C3, with the bounding box the code sets. \<open>InitEntity\<close> fails only when the
  allocation fails. On success it stores the size, the map width and the position,
  sets the documented defaults (acceleration 400, deceleration 200, maximal velocity
  100, 48 pixels to the metre, gravitation 9.81, frames 0 to 12 at 20 frames per second,
  frame row offset 0), zeroes the velocities, the flags, the frame and the frame
  duration, binds no sprite and stores the position as the spawn point. The bounding
  box is not computed from the position: its top is 0 and its right is the width,
  wherever the entity is.
\<close>

theorem InitEntity_defaults:
  "InitEntity False w h x y m = None \<and>
   (\<exists>e. InitEntity True w h x y m = Some e
      \<and> u8Width e = w \<and> u8Height e = h \<and> u32MapWidth e = m
      \<and> dWorldPosX e = x \<and> dWorldPosY e = y
      \<and> dAcceleration e = 400 \<and> dDeceleration e = 200 \<and> dMaxVelocityX e = 100
      \<and> dWorldMeterInPixel e = 48 \<and> dWorldGravitation e = 9.81
      \<and> u8FrameStart e = 0 \<and> u8FrameEnd e = 12 \<and> dFrameAnimationFPS e = 20
      \<and> u8FrameOffsetY e = 0
      \<and> dVelocityX e = 0 \<and> dVelocityY e = 0 \<and> dDistanceY e = 0 \<and> u16Flags e = 0
      \<and> u8Frame e = 0 \<and> dFrameDuration e = 0 \<and> pstSprite e = None
      \<and> dInitialWorldPosX e = x \<and> dInitialWorldPosY e = y
      \<and> dTop (stBB e) = 0 \<and> dRight (stBB e) = real (unat w))"
  by (simp add: InitEntity_def)

theorem InitEntity_defaults_counterexample:
  "InitEntity True 16 32 100 200 640 = Some example_entity
   \<and> stBB example_entity = \<lparr>dBottom = 0, dLeft = 32, dRight = 16, dTop = 0\<rparr>
   \<and> stBB example_entity \<noteq> \<lparr>dBottom = 200 + 32, dLeft = 100, dRight = 100 + 16, dTop = 200\<rparr>"
  by (simp add: example_entity_def InitEntity_def)

subsection \<open>C4: the map borders\<close>

text \<open>
  C4, for an entity no wider than the map. For every entity with
  \<open>u8Width \<le> u32MapWidth\<close> on which the call is defined (\<open>dFrameAnimationFPS\<close> is not 0
  and, with \<open>ENTITY_IS_IN_MID_AIR\<close> clear, \<open>dWorldPosY\<close> is at least \<open>- 2 ^ 31 + 1\<close> and
  below \<open>2 ^ 31\<close>) and every time step, \<open>UpdateEntity\<close> returns, and then \<open>dWorldPosX\<close>
  lies between \<open>- u8Width\<close> and \<open>u32MapWidth - u8Width\<close>: a position that the call's
  motion has taken below \<open>- u8Width\<close> is set to exactly \<open>u32MapWidth - u8Width\<close>, one
  that it has taken above \<open>u32MapWidth - u8Width\<close> is set to exactly \<open>- u8Width\<close>, and
  any other is kept. An entity at \<open>u32MapWidth - u8Width + 1\<close> that faces right
  (\<open>ENTITY_DIRECTION\<close> clear), with a time step that is not negative, ends at exactly
  \<open>- u8Width\<close>.
\<close>

theorem UpdateEntity_map_borders:
  assumes "dFrameAnimationFPS e \<noteq> 0"
    and "FLAG_IS_SET (u16Flags e) (ENTITY_IS_IN_MID_AIR fl)
         \<or> (- (2 ^ 31) + 1 \<le> dWorldPosY e \<and> dWorldPosY e < 2 ^ 31)"
    and "unat (u8Width e) \<le> unat (u32MapWidth e)"
  shows "\<exists>e'. UpdateEntity fl e dt = Inr e'
    \<and> - real (unat (u8Width e)) \<le> dWorldPosX e'
    \<and> dWorldPosX e' \<le> real (unat (u32MapWidth e)) - real (unat (u8Width e))
    \<and> dWorldPosX e' =
        (let x = dWorldPosX (set_horizontal_position fl (limit_velocity (update_velocity fl e dt)) dt)
         in if x < - real (unat (u8Width e))
            then real (unat (u32MapWidth e)) - real (unat (u8Width e))
            else if x > real (unat (u32MapWidth e)) - real (unat (u8Width e))
            then - real (unat (u8Width e))
            else x)
    \<and> (\<not> FLAG_IS_SET (u16Flags e) (ENTITY_DIRECTION fl) \<and> 0 \<le> dt
        \<and> dWorldPosX e = real (unat (u32MapWidth e)) - real (unat (u8Width e)) + 1
        \<longrightarrow> dWorldPosX e' = - real (unat (u8Width e)))"
proof -
  from UpdateEntity_total [OF assms(1,2)] obtain e' where e': "UpdateEntity fl e dt = Inr e'"
    by blast
  let ?e3 = "limit_velocity (update_velocity fl e dt)"
  let ?x = "dWorldPosX (set_horizontal_position fl ?e3 dt)"
  let ?l = "- real (unat (u8Width e))"
  let ?r = "real (unat (u32MapWidth e)) - real (unat (u8Width e))"
  have r: "real (unat (u32MapWidth e - ucast (u8Width e))) = ?r"
    using assms(3) by (rule unat_map_minus_width)
  have "0 \<le> real (unat (u32MapWidth e))" by (rule of_nat_0_le_iff)
  then have lr: "?l \<le> ?r" by linarith
  have "dWorldPosX e' = dWorldPosX (connect_map_borders (set_horizontal_position fl ?e3 dt))"
    using e' by (rule UpdateEntity_dWorldPosX)
  also have "\<dots> = (let x = (if ?x < ?l then ?r else ?x) in if x > ?r then ?l else x)"
    by (simp add: connect_map_borders_eq Let_def r set_horizontal_position_eq
        limit_velocity_eq update_velocity_eq del: of_nat_unat)
  also have "\<dots> = (if ?x < ?l then ?r else if ?x > ?r then ?l else ?x)"
    using lr by (simp add: Let_def)
  finally have x': "dWorldPosX e' = (if ?x < ?l then ?r else if ?x > ?r then ?l else ?x)" .
  have v: "0 \<le> dVelocityX ?e3"
    by (simp add: limit_velocity_eq Let_def)
  have right: "dWorldPosX e' = ?l"
    if "\<not> FLAG_IS_SET (u16Flags e) (ENTITY_DIRECTION fl)" "0 \<le> dt" "dWorldPosX e = ?r + 1"
  proof -
    have "?x = (if dVelocityX ?e3 > 0 then dWorldPosX e + dVelocityX ?e3 * dt else dWorldPosX e)"
      using that(1)
      by (simp add: set_horizontal_position_eq limit_velocity_eq update_velocity_eq)
    moreover have "0 \<le> dVelocityX ?e3 * dt"
      using v that(2) by (rule mult_nonneg_nonneg)
    ultimately have "dWorldPosX e \<le> ?x" by simp
    with that(3) lr have "?r < ?x" "\<not> ?x < ?l" by linarith+
    with x' show ?thesis by simp
  qed
  from x' lr right have "?l \<le> dWorldPosX e'
    \<and> dWorldPosX e' \<le> ?r
    \<and> dWorldPosX e' = (let x = ?x in if x < ?l then ?r else if x > ?r then ?l else x)
    \<and> (\<not> FLAG_IS_SET (u16Flags e) (ENTITY_DIRECTION fl) \<and> 0 \<le> dt \<and> dWorldPosX e = ?r + 1
        \<longrightarrow> dWorldPosX e' = ?l)"
    by (simp add: Let_def)
  with e' show ?thesis by blast
qed

theorem UpdateEntity_map_borders_witness:
  "dFrameAnimationFPS (example_entity\<lparr>u16Flags := 4, dWorldPosX := 625\<rparr>) = 20
   \<and> dWorldPosY (example_entity\<lparr>u16Flags := 4, dWorldPosX := 625\<rparr>) = 200
   \<and> unat (u8Width (example_entity\<lparr>u16Flags := 4, dWorldPosX := 625\<rparr>)) = 16
   \<and> unat (u32MapWidth (example_entity\<lparr>u16Flags := 4, dWorldPosX := 625\<rparr>)) = 640
   \<and> \<not> FLAG_IS_SET (u16Flags (example_entity\<lparr>u16Flags := 4, dWorldPosX := 625\<rparr>))
          (ENTITY_DIRECTION example_flags)
   \<and> (0 :: real) \<le> 1 / 10
   \<and> dWorldPosX (example_entity\<lparr>u16Flags := 4, dWorldPosX := 625\<rparr>) = 640 - 16 + 1
   \<and> UpdateEntity example_flags (example_entity\<lparr>u16Flags := 4, dWorldPosX := 625\<rparr>) (1 / 10) =
     Inr (example_entity\<lparr>u16Flags := 4,
            stBB := \<lparr>dBottom = 232, dLeft = 625, dRight = 641, dTop = 200\<rparr>,
            dVelocityX := 40, dWorldPosX := - 16, u8Frame := 1\<rparr>)"
proof -
  let ?e = "example_entity\<lparr>u16Flags := 4, dWorldPosX := 625\<rparr>"
  have step:
    "UpdateEntity example_flags ?e (1 / 10) =
     Inr (example_entity\<lparr>u16Flags := 4,
            stBB := \<lparr>dBottom = 232, dLeft = 625, dRight = 641, dTop = 200\<rparr>,
            dVelocityX := 40, dWorldPosX := - 16, u8Frame := 1\<rparr>)"
    by (simp add: eval_simps y_correction_200)
  have pre: "dFrameAnimationFPS ?e \<noteq> 0"
    "FLAG_IS_SET (u16Flags ?e) (ENTITY_IS_IN_MID_AIR example_flags)
         \<or> (- (2 ^ 31) + 1 \<le> dWorldPosY ?e \<and> dWorldPosY ?e < 2 ^ 31)"
    "unat (u8Width ?e) \<le> unat (u32MapWidth ?e)"
    by (simp_all add: example_entity_eq)
  from UpdateEntity_map_borders [OF pre, of "1 / 10"] step show ?thesis
    by (simp add: example_entity_eq example_flags_def FLAG_IS_SET_bit)
qed

theorem UpdateEntity_map_borders_counterexample:
  "UpdateEntity example_flags
      (example_entity\<lparr>u8Width := 10, u32MapWidth := 0, dWorldPosX := - 20\<rparr>) (1 / 10) =
     Inr (example_entity\<lparr>u8Width := 10, u32MapWidth := 0,
            stBB := \<lparr>dBottom = 232, dLeft = - 20, dRight = - 10, dTop = 200\<rparr>,
            dWorldPosX := 4294967286, u8Frame := 1\<rparr>)
   \<and> \<not> (dWorldPosX (example_entity\<lparr>u8Width := 10, u32MapWidth := 0,
            stBB := \<lparr>dBottom = 232, dLeft = - 20, dRight = - 10, dTop = 200\<rparr>,
            dWorldPosX := 4294967286, u8Frame := 1\<rparr>)
          \<le> real (unat (0 :: uint32_t)) - real (unat (10 :: uint8_t)))"
  by (simp add: eval_simps y_correction_200)

subsection \<open>C5: the frame range\<close>

text \<open>
  C5, for a frame below 255 on entry. Under the precondition
  \<open>u8FrameStart < u8FrameEnd\<close>, with \<open>u8Frame < 255\<close> on entry, and on an entity on which
  the call is defined (\<open>dFrameAnimationFPS\<close> is not 0 and, with \<open>ENTITY_IS_IN_MID_AIR\<close>
  clear, \<open>dWorldPosY\<close> is at least \<open>- 2 ^ 31 + 1\<close> and below \<open>2 ^ 31\<close>), \<open>UpdateEntity\<close>
  returns, and then the frame satisfies \<open>u8FrameStart \<le> u8Frame < u8FrameEnd\<close>: a
  frame below \<open>u8FrameStart\<close> is set to \<open>u8FrameStart\<close>, the frame advances by one when
  the accumulated duration exceeds \<open>1 / dFrameAnimationFPS\<close>, and a frame that reaches
  \<open>u8FrameEnd\<close> is set back to \<open>u8FrameStart\<close>. The frame is again below 255, so the
  range is kept from call to call.
\<close>

theorem UpdateEntity_frame_range:
  assumes "dFrameAnimationFPS e \<noteq> 0"
    and "FLAG_IS_SET (u16Flags e) (ENTITY_IS_IN_MID_AIR fl)
         \<or> (- (2 ^ 31) + 1 \<le> dWorldPosY e \<and> dWorldPosY e < 2 ^ 31)"
    and "u8FrameStart e < u8FrameEnd e"
    and "u8Frame e < 255"
  shows "\<exists>e'. UpdateEntity fl e dt = Inr e'
    \<and> u8FrameStart e' \<le> u8Frame e' \<and> u8Frame e' < u8FrameEnd e' \<and> u8Frame e' < 255
    \<and> u8Frame e' =
      (let f = (if u8Frame e < u8FrameStart e then u8FrameStart e else u8Frame e);
           f' = (if dFrameDuration e + dt > 1 / dFrameAnimationFPS e then f + 1 else f)
       in if f' \<ge> u8FrameEnd e then u8FrameStart e else f')"
proof -
  from UpdateEntity_total [OF assms(1,2)] obtain e' where e': "UpdateEntity fl e dt = Inr e'"
    by blast
  have same: "u8FrameStart e' = u8FrameStart e" "u8FrameEnd e' = u8FrameEnd e"
    using e' by (rule UpdateEntity_unchanged)+
  have frame: "u8Frame e' =
      (let f = (if u8Frame e < u8FrameStart e then u8FrameStart e else u8Frame e);
           f' = (if dFrameDuration e + dt > 1 / dFrameAnimationFPS e then f + 1 else f)
       in if f' \<ge> u8FrameEnd e then u8FrameStart e else f')"
    using e' by (rule UpdateEntity_update_frame)
  from frame_in_range [OF assms(3,4), of "dFrameDuration e + dt > 1 / dFrameAnimationFPS e"]
  have range: "u8FrameStart e \<le> u8Frame e'" "u8Frame e' < u8FrameEnd e"
    unfolding frame by simp_all
  have "unat (u8FrameEnd e) < 2 ^ LENGTH(8)" by (rule unsigned_less)
  then have "u8FrameEnd e \<le> 255" by (simp add: word_le_nat_alt)
  with range(2) have "u8Frame e' < 255" by (rule less_le_trans)
  with range frame have "u8FrameStart e' \<le> u8Frame e' \<and> u8Frame e' < u8FrameEnd e'
    \<and> u8Frame e' < 255
    \<and> u8Frame e' =
      (let f = (if u8Frame e < u8FrameStart e then u8FrameStart e else u8Frame e);
           f' = (if dFrameDuration e + dt > 1 / dFrameAnimationFPS e then f + 1 else f)
       in if f' \<ge> u8FrameEnd e then u8FrameStart e else f')"
    unfolding same by simp
  with e' show ?thesis by blast
qed

theorem UpdateEntity_frame_range_witness:
  "dFrameAnimationFPS ((SetEntitySpriteAnimation example_entity 0 4 0 10)\<lparr>u8Frame := 3\<rparr>) = 10
   \<and> dWorldPosY ((SetEntitySpriteAnimation example_entity 0 4 0 10)\<lparr>u8Frame := 3\<rparr>) = 200
   \<and> u8FrameStart ((SetEntitySpriteAnimation example_entity 0 4 0 10)\<lparr>u8Frame := 3\<rparr>) = 0
   \<and> u8FrameEnd ((SetEntitySpriteAnimation example_entity 0 4 0 10)\<lparr>u8Frame := 3\<rparr>) = 4
   \<and> u8Frame ((SetEntitySpriteAnimation example_entity 0 4 0 10)\<lparr>u8Frame := 3\<rparr>) = 3
   \<and> UpdateEntity example_flags
        ((SetEntitySpriteAnimation example_entity 0 4 0 10)\<lparr>u8Frame := 3\<rparr>) (1 / 5) =
       Inr ((SetEntitySpriteAnimation example_entity 0 4 0 10)
              \<lparr>stBB := \<lparr>dBottom = 232, dLeft = 100, dRight = 116, dTop = 200\<rparr>,
               u8Frame := 0\<rparr>)"
proof -
  let ?e = "(SetEntitySpriteAnimation example_entity 0 4 0 10)\<lparr>u8Frame := 3\<rparr>"
  have step: "UpdateEntity example_flags ?e (1 / 5) =
       Inr ((SetEntitySpriteAnimation example_entity 0 4 0 10)
              \<lparr>stBB := \<lparr>dBottom = 232, dLeft = 100, dRight = 116, dTop = 200\<rparr>,
               u8Frame := 0\<rparr>)"
    by (simp add: eval_simps SetEntitySpriteAnimation_def y_correction_200)
  have pre: "dFrameAnimationFPS ?e \<noteq> 0"
    "FLAG_IS_SET (u16Flags ?e) (ENTITY_IS_IN_MID_AIR example_flags)
         \<or> (- (2 ^ 31) + 1 \<le> dWorldPosY ?e \<and> dWorldPosY ?e < 2 ^ 31)"
    "u8FrameStart ?e < u8FrameEnd ?e" "u8Frame ?e < 255"
    by (simp_all add: SetEntitySpriteAnimation_def example_entity_eq word_less_nat_alt)
  from UpdateEntity_frame_range [OF pre, of "1 / 5"] step show ?thesis
    by (simp add: SetEntitySpriteAnimation_def example_entity_eq)
qed

theorem UpdateEntity_frame_range_counterexample:
  "u8FrameStart (example_entity\<lparr>u8FrameStart := 5, u8FrameEnd := 10, u8Frame := 255\<rparr>)
     < u8FrameEnd (example_entity\<lparr>u8FrameStart := 5, u8FrameEnd := 10, u8Frame := 255\<rparr>)
   \<and> UpdateEntity example_flags
        (example_entity\<lparr>u8FrameStart := 5, u8FrameEnd := 10, u8Frame := 255\<rparr>) (1 / 10) =
       Inr (example_entity\<lparr>u8FrameStart := 5, u8FrameEnd := 10,
              stBB := \<lparr>dBottom = 232, dLeft = 100, dRight = 116, dTop = 200\<rparr>,
              u8Frame := 0\<rparr>)
   \<and> \<not> (u8FrameStart (example_entity\<lparr>u8FrameStart := 5, u8FrameEnd := 10,
              stBB := \<lparr>dBottom = 232, dLeft = 100, dRight = 116, dTop = 200\<rparr>,
              u8Frame := 0\<rparr>)
          \<le> u8Frame (example_entity\<lparr>u8FrameStart := 5, u8FrameEnd := 10,
              stBB := \<lparr>dBottom = 232, dLeft = 100, dRight = 116, dTop = 200\<rparr>,
              u8Frame := 0\<rparr>))"
  by (simp add: eval_simps y_correction_200)

lemma animation_cycle_example:
  "map_sum id u8Frame (UpdateEntity_frames example_flags
      (SetEntitySpriteAnimation example_entity 0 4 0 10) [1 / 5]) = Inr 1"
  "map_sum id u8Frame (UpdateEntity_frames example_flags
      (SetEntitySpriteAnimation example_entity 0 4 0 10) [1 / 5, 1 / 5]) = Inr 2"
  "map_sum id u8Frame (UpdateEntity_frames example_flags
      (SetEntitySpriteAnimation example_entity 0 4 0 10) [1 / 5, 1 / 5, 1 / 5]) = Inr 3"
  "map_sum id u8Frame (UpdateEntity_frames example_flags
      (SetEntitySpriteAnimation example_entity 0 4 0 10) [1 / 5, 1 / 5, 1 / 5, 1 / 5]) = Inr 0"
  by (simp_all add: eval_simps SetEntitySpriteAnimation_def y_correction_200)

subsection \<open>C6: the correction of the y-coordinate\<close>

text \<open>
  C6, for the positions it holds at. For every entity with \<open>ENTITY_IS_IN_MID_AIR\<close> clear
  and \<open>dFrameAnimationFPS\<close> not 0, and every starting \<open>dWorldPosY\<close> that is at least
  \<open>- 2 ^ 31 + 1\<close> and below \<open>2 ^ 31\<close>, \<open>UpdateEntity\<close> returns, and then \<open>dWorldPosY\<close> is
  the nearest lower multiple of 8 (8 times the floor of an eighth of the starting value)
  exactly when the starting value is a whole number, or neither its integral part (the
  \<open>int32_t\<close> conversion, which drops the fraction) nor its floor is a multiple of 8; the
  two agree for a value that is not negative. The loop tests the \<open>int32_t\<close> conversion: a
  \<open>dWorldPosY\<close> whose integral part is a multiple of 8 already is left as it is, with
  its fraction.
\<close>

theorem UpdateEntity_y_correction:
  assumes "\<not> FLAG_IS_SET (u16Flags e) (ENTITY_IS_IN_MID_AIR fl)"
    and "dFrameAnimationFPS e \<noteq> 0"
    and "- (2 ^ 31) + 1 \<le> dWorldPosY e" and "dWorldPosY e < 2 ^ 31"
  shows "\<exists>e'. UpdateEntity fl e dt = Inr e'
    \<and> ((dWorldPosY e' = 8 * real_of_int \<lfloor>dWorldPosY e / 8\<rfloor>) =
        (dWorldPosY e \<in> \<int>
         \<or> (trunc (dWorldPosY e) mod 8 \<noteq> 0 \<and> \<lfloor>dWorldPosY e\<rfloor> mod 8 \<noteq> 0)))
    \<and> (trunc (dWorldPosY e) mod 8 = 0 \<longrightarrow> dWorldPosY e' = dWorldPosY e)"
proof -
  let ?y = "dWorldPosY e"
  have eq: "y_correction ?y =
      Inr (if trunc ?y mod 8 = 0 then ?y else real_of_int (8 * ((\<lfloor>?y\<rfloor> - 1) div 8)))"
    using assms(3,4) by (rule y_correction_eq)
  from UpdateEntity_grounded(2) [OF assms(1) eq assms(2)] obtain e' where
    e': "UpdateEntity fl e dt = Inr e'"
    and y': "dWorldPosY e' =
      (if trunc ?y mod 8 = 0 then ?y else real_of_int (8 * ((\<lfloor>?y\<rfloor> - 1) div 8)))"
    by blast
  have fl8: "real_of_int \<lfloor>?y / 8\<rfloor> = real_of_int (\<lfloor>?y\<rfloor> div 8)"
    using floor_divide_real_eq_div [of 8 ?y] by simp
  have int: "trunc ?y = \<lfloor>?y\<rfloor> \<and> ?y = real_of_int \<lfloor>?y\<rfloor>" if "?y \<in> \<int>"
    using that by (auto simp add: trunc_def elim: Ints_cases)
  have main: "(dWorldPosY e' = 8 * real_of_int \<lfloor>?y / 8\<rfloor>) =
        (?y \<in> \<int> \<or> (trunc ?y mod 8 \<noteq> 0 \<and> \<lfloor>?y\<rfloor> mod 8 \<noteq> 0))"
  proof (cases "trunc ?y mod 8 = 0")
    case True
    show ?thesis
    proof (cases "?y \<in> \<int>")
      case y: True
      from int [OF y] True have "\<lfloor>?y\<rfloor> mod 8 = 0" by simp
      then have "8 * (\<lfloor>?y\<rfloor> div 8) = \<lfloor>?y\<rfloor>" by presburger
      then have "8 * real_of_int (\<lfloor>?y\<rfloor> div 8) = real_of_int \<lfloor>?y\<rfloor>"
        by (metis of_int_mult of_int_numeral)
      with int [OF y] y True show ?thesis unfolding y' fl8 by simp
    next
      case y: False
      have "8 * real_of_int (\<lfloor>?y\<rfloor> div 8) \<in> \<int>" by simp
      with y have "?y \<noteq> 8 * real_of_int (\<lfloor>?y\<rfloor> div 8)" by metis
      with y True show ?thesis unfolding y' fl8 by simp
    qed
  next
    case False
    have *: "((\<lfloor>?y\<rfloor> - 1) div 8 = \<lfloor>?y\<rfloor> div 8) = (\<lfloor>?y\<rfloor> mod 8 \<noteq> 0)"
      by presburger
    have "\<lfloor>?y\<rfloor> mod 8 \<noteq> 0" if "?y \<in> \<int>"
      using int [OF that] False by simp
    with False * show ?thesis unfolding y' fl8 by auto
  qed
  have aligned: "trunc ?y mod 8 = 0 \<longrightarrow> dWorldPosY e' = ?y"
    unfolding y' by simp
  show ?thesis
  proof (intro exI [of _ e'] conjI)
    show "UpdateEntity fl e dt = Inr e'" by (rule e')
    show "(dWorldPosY e' = 8 * real_of_int \<lfloor>?y / 8\<rfloor>) =
        (?y \<in> \<int> \<or> (trunc ?y mod 8 \<noteq> 0 \<and> \<lfloor>?y\<rfloor> mod 8 \<noteq> 0))" by (rule main)
    show "trunc ?y mod 8 = 0 \<longrightarrow> dWorldPosY e' = ?y" by (rule aligned)
  qed
qed

theorem UpdateEntity_y_correction_witness:
  "\<not> FLAG_IS_SET (u16Flags example_entity) (ENTITY_IS_IN_MID_AIR example_flags)
   \<and> dFrameAnimationFPS example_entity = 20
   \<and> (17 :: real) \<in> \<int>
   \<and> UpdateEntity example_flags (example_entity\<lparr>dWorldPosY := 17\<rparr>) (1 / 10) =
       Inr (example_entity\<lparr>stBB := \<lparr>dBottom = 49, dLeft = 100, dRight = 116, dTop = 17\<rparr>,
              dWorldPosY := 16, u8Frame := 1\<rparr>)
   \<and> (16 :: real) = 8 * real_of_int \<lfloor>(17 :: real) / 8\<rfloor>
   \<and> trunc (95 / 4) = 23 \<and> \<lfloor>95 / 4 :: real\<rfloor> = 23
   \<and> UpdateEntity example_flags (example_entity\<lparr>dWorldPosY := 95 / 4\<rparr>) (1 / 10) =
       Inr (example_entity\<lparr>stBB := \<lparr>dBottom = 223 / 4, dLeft = 100, dRight = 116, dTop = 95 / 4\<rparr>,
              dWorldPosY := 16, u8Frame := 1\<rparr>)
   \<and> (16 :: real) = 8 * real_of_int \<lfloor>(95 / 4 :: real) / 8\<rfloor>
   \<and> trunc (33 / 2) = 16
   \<and> UpdateEntity example_flags (example_entity\<lparr>dWorldPosY := 33 / 2\<rparr>) (1 / 10) =
       Inr (example_entity\<lparr>stBB := \<lparr>dBottom = 97 / 2, dLeft = 100, dRight = 116, dTop = 33 / 2\<rparr>,
              dWorldPosY := 33 / 2, u8Frame := 1\<rparr>)"
proof -
  have g: "\<not> FLAG_IS_SET (u16Flags (example_entity\<lparr>dWorldPosY := y\<rparr>))
        (ENTITY_IS_IN_MID_AIR example_flags)"
    and fps: "dFrameAnimationFPS (example_entity\<lparr>dWorldPosY := y\<rparr>) \<noteq> 0" for y
    by (simp_all add: example_entity_eq example_flags_def FLAG_IS_SET_bit)
  have s17: "UpdateEntity example_flags (example_entity\<lparr>dWorldPosY := 17\<rparr>) (1 / 10) =
       Inr (example_entity\<lparr>stBB := \<lparr>dBottom = 49, dLeft = 100, dRight = 116, dTop = 17\<rparr>,
              dWorldPosY := 16, u8Frame := 1\<rparr>)"
    by (simp add: eval_simps y_correction_17)
  have s23: "UpdateEntity example_flags (example_entity\<lparr>dWorldPosY := 95 / 4\<rparr>) (1 / 10) =
       Inr (example_entity\<lparr>stBB := \<lparr>dBottom = 223 / 4, dLeft = 100, dRight = 116, dTop = 95 / 4\<rparr>,
              dWorldPosY := 16, u8Frame := 1\<rparr>)"
    using round_double_quarter [of 223] by (simp add: eval_simps y_correction_95_4)
  have s33: "UpdateEntity example_flags (example_entity\<lparr>dWorldPosY := 33 / 2\<rparr>) (1 / 10) =
       Inr (example_entity\<lparr>stBB := \<lparr>dBottom = 97 / 2, dLeft = 100, dRight = 116, dTop = 33 / 2\<rparr>,
              dWorldPosY := 33 / 2, u8Frame := 1\<rparr>)"
    using round_double_half [of 97] by (simp add: eval_simps y_correction_33_2)
  have r17: "- (2 ^ 31) + 1 \<le> dWorldPosY (example_entity\<lparr>dWorldPosY := 17\<rparr>)"
    "dWorldPosY (example_entity\<lparr>dWorldPosY := 17\<rparr>) < 2 ^ 31"
    and r23: "- (2 ^ 31) + 1 \<le> dWorldPosY (example_entity\<lparr>dWorldPosY := 95 / 4\<rparr>)"
    "dWorldPosY (example_entity\<lparr>dWorldPosY := 95 / 4\<rparr>) < 2 ^ 31"
    and r33: "- (2 ^ 31) + 1 \<le> dWorldPosY (example_entity\<lparr>dWorldPosY := 33 / 2\<rparr>)"
    "dWorldPosY (example_entity\<lparr>dWorldPosY := 33 / 2\<rparr>) < 2 ^ 31"
    by simp_all
  from UpdateEntity_y_correction [OF g fps r17, of "1 / 10"]
    UpdateEntity_y_correction [OF g fps r23, of "1 / 10"]
    UpdateEntity_y_correction [OF g fps r33, of "1 / 10"]
    g [of 200] fps [of 200] s17 s23 s33
  show ?thesis
    by (simp add: example_entity_eq trunc_def)
qed

theorem UpdateEntity_y_correction_counterexample:
  "\<not> FLAG_IS_SET (u16Flags (example_entity\<lparr>dWorldPosY := 33 / 2\<rparr>))
        (ENTITY_IS_IN_MID_AIR example_flags)
   \<and> UpdateEntity example_flags (example_entity\<lparr>dWorldPosY := 33 / 2\<rparr>) (1 / 10) =
       Inr (example_entity\<lparr>stBB := \<lparr>dBottom = 97 / 2, dLeft = 100, dRight = 116, dTop = 33 / 2\<rparr>,
              dWorldPosY := 33 / 2, u8Frame := 1\<rparr>)
   \<and> dWorldPosY (example_entity\<lparr>stBB := \<lparr>dBottom = 97 / 2, dLeft = 100, dRight = 116, dTop = 33 / 2\<rparr>,
              dWorldPosY := 33 / 2, u8Frame := 1\<rparr>)
       \<noteq> 8 * real_of_int \<lfloor>dWorldPosY (example_entity\<lparr>dWorldPosY := 33 / 2\<rparr>) / 8\<rfloor>"
  using round_double_half [of 97] by (simp add: eval_simps y_correction_33_2)

subsection \<open>C7: the correction from 17\<close>

text \<open>
  C7. Given \<open>dWorldPosY = 17\<close> and \<open>ENTITY_IS_IN_MID_AIR\<close> clear, the calls of
  \<open>UpdateEntity\<close> over one frame or more return and leave \<open>dWorldPosY\<close> at 16, the nearest
  lower multiple of 8; given \<open>dWorldPosY = 16\<close> they leave it at 16. The loop, while the
  \<open>int32_t\<close> conversion of \<open>dWorldPosY\<close> has a remainder modulo 8 that is not 0,
  replaces \<open>dWorldPosY\<close> by its floor minus 1, which is strictly less.
\<close>

theorem grounded_frames_from_17:
  assumes "\<not> FLAG_IS_SET (u16Flags e) (ENTITY_IS_IN_MID_AIR fl)"
    and "dFrameAnimationFPS e \<noteq> 0"
    and "dWorldPosY e = 17 \<or> dWorldPosY e = 16"
  shows "(\<exists>e'. UpdateEntity_frames fl e (dt # dts) = Inr e' \<and> dWorldPosY e' = 16)
    \<and> (\<forall>y i. int32_of_double y = Some i \<longrightarrow>
          y_correction y =
            (if 0 \<noteq> c_rem i 8 then y_correction (y_correction_body y) else Inr y))
    \<and> (\<forall>y. y_correction_body y = real_of_int \<lfloor>y\<rfloor> - 1 \<and> y_correction_body y < y)"
proof -
  from assms(3) have "y_correction (dWorldPosY e) = Inr 16"
    by (auto simp add: y_correction_17 y_correction_16)
  from UpdateEntity_grounded(2) [OF assms(1) this assms(2)]
  obtain e1 where e1: "UpdateEntity fl e dt = Inr e1" "dWorldPosY e1 = 16" by blast
  have "u16Flags e1 = u16Flags e" "dFrameAnimationFPS e1 = dFrameAnimationFPS e"
    using e1(1) by (rule UpdateEntity_unchanged)+
  with assms have "\<not> FLAG_IS_SET (u16Flags e1) (ENTITY_IS_IN_MID_AIR fl)"
    "dFrameAnimationFPS e1 \<noteq> 0" by simp_all
  from UpdateEntity_frames_16 [OF this e1(2)] e1(1)
  have frames: "\<exists>e'. UpdateEntity_frames fl e (dt # dts) = Inr e' \<and> dWorldPosY e' = 16"
    by simp
  have loop: "y_correction y =
      (if 0 \<noteq> c_rem i 8 then y_correction (y_correction_body y) else Inr y)"
    if "int32_of_double y = Some i" for y i
    using that by (subst y_correction.simps) simp
  have body: "y_correction_body y = real_of_int \<lfloor>y\<rfloor> - 1 \<and> y_correction_body y < y" for y
    using y_correction_body_less [of y] by (simp add: y_correction_body_def)
  from frames loop body show ?thesis by blast
qed

theorem grounded_frames_from_17_witness:
  "\<not> FLAG_IS_SET (u16Flags (example_entity\<lparr>dWorldPosY := 17\<rparr>))
        (ENTITY_IS_IN_MID_AIR example_flags)
   \<and> dFrameAnimationFPS (example_entity\<lparr>dWorldPosY := 17\<rparr>) \<noteq> 0
   \<and> dWorldPosY (example_entity\<lparr>dWorldPosY := 17\<rparr>) = 17
   \<and> UpdateEntity_frames example_flags (example_entity\<lparr>dWorldPosY := 17\<rparr>) [1 / 10, 1 / 100] =
       Inr (example_entity\<lparr>stBB := \<lparr>dBottom = 48, dLeft = 100, dRight = 116, dTop = 16\<rparr>,
              dWorldPosY := 16, u8Frame := 1, dFrameDuration := 1 / 100\<rparr>)
   \<and> int32_of_double 17 = Some 17 \<and> c_rem 17 8 = 1
   \<and> y_correction_body 17 = 16 \<and> int32_of_double 16 = Some 16 \<and> c_rem 16 8 = 0
   \<and> y_correction 17 = Inr 16"
proof -
  have pre: "\<not> FLAG_IS_SET (u16Flags (example_entity\<lparr>dWorldPosY := 17\<rparr>))
        (ENTITY_IS_IN_MID_AIR example_flags)"
    "dFrameAnimationFPS (example_entity\<lparr>dWorldPosY := 17\<rparr>) \<noteq> 0"
    "dWorldPosY (example_entity\<lparr>dWorldPosY := 17\<rparr>) = 17
      \<or> dWorldPosY (example_entity\<lparr>dWorldPosY := 17\<rparr>) = 16"
    by (simp_all add: example_entity_eq example_flags_def FLAG_IS_SET_bit)
  have frames:
    "UpdateEntity_frames example_flags (example_entity\<lparr>dWorldPosY := 17\<rparr>) [1 / 10, 1 / 100] =
       Inr (example_entity\<lparr>stBB := \<lparr>dBottom = 48, dLeft = 100, dRight = 116, dTop = 16\<rparr>,
              dWorldPosY := 16, u8Frame := 1, dFrameDuration := 1 / 100\<rparr>)"
    by (simp add: eval_simps y_correction_17 y_correction_16)
  have casts: "int32_of_double 17 = Some 17" "int32_of_double 16 = Some 16"
    using int32_of_double_of_int [of 17] int32_of_double_of_int [of 16] by simp_all
  have rems: "c_rem 17 8 = 1" "c_rem 16 8 = 0" "y_correction_body 17 = 16"
    by (simp_all add: c_rem_def y_correction_body_def)
  from grounded_frames_from_17 [OF pre, of "1 / 10" "[1 / 100]"]
    pre frames casts rems y_correction_17
  show ?thesis by simp
qed

subsection \<open>C8: gravity\<close>

text \<open>
  C8. For every entity with \<open>ENTITY_IS_IN_MID_AIR\<close> set (and \<open>dFrameAnimationFPS\<close> not 0,
  so that the call is defined) and every time step, \<open>UpdateEntity\<close> returns, and then
  \<open>dDistanceY\<close> is \<open>dWorldMeterInPixel * dWorldGravitation * dDeltaTime * dDeltaTime\<close>,
  \<open>dVelocityY\<close> has grown by that \<open>dDistanceY\<close>, and \<open>dWorldPosY\<close> has grown by the new
  \<open>dVelocityY\<close>: the correction of the y-coordinate does not run (it would not return
  for a \<open>dWorldPosY\<close> outside the \<open>int32_t\<close> range, and would move it to a multiple of
  8), and \<open>dVelocityY\<close> is not reset to zero.
\<close>

theorem UpdateEntity_gravity:
  assumes "dFrameAnimationFPS e \<noteq> 0"
    and "FLAG_IS_SET (u16Flags e) (ENTITY_IS_IN_MID_AIR fl)"
  shows "\<exists>e'. UpdateEntity fl e dt = Inr e'
    \<and> dDistanceY e' = dWorldMeterInPixel e * dWorldGravitation e * dt * dt
    \<and> dVelocityY e' = dVelocityY e + dDistanceY e'
    \<and> dWorldPosY e' = dWorldPosY e + dVelocityY e'"
proof -
  from assms(2) have "FLAG_IS_SET (u16Flags e) (ENTITY_IS_IN_MID_AIR fl)
         \<or> (- (2 ^ 31) + 1 \<le> dWorldPosY e \<and> dWorldPosY e < 2 ^ 31)" by simp
  from UpdateEntity_total [OF assms(1) this] obtain e' where e': "UpdateEntity fl e dt = Inr e'"
    by blast
  from UpdateEntity_apply_gravity [OF e'] obtain e5 where
    g: "apply_gravity fl e dt = Inr e5"
    and same: "dDistanceY e' = dDistanceY e5" "dVelocityY e' = dVelocityY e5"
      "dWorldPosY e' = dWorldPosY e5"
    by blast
  from g assms(2) have "e5 = e\<lparr>dDistanceY := dWorldMeterInPixel e * dWorldGravitation e * dt * dt,
            dVelocityY := dVelocityY e + dWorldMeterInPixel e * dWorldGravitation e * dt * dt,
            dWorldPosY := dWorldPosY e
               + (dVelocityY e + dWorldMeterInPixel e * dWorldGravitation e * dt * dt)\<rparr>"
    by (simp add: apply_gravity_mid_air)
  with same have "dDistanceY e' = dWorldMeterInPixel e * dWorldGravitation e * dt * dt
    \<and> dVelocityY e' = dVelocityY e + dDistanceY e'
    \<and> dWorldPosY e' = dWorldPosY e + dVelocityY e'"
    by simp
  with e' show ?thesis by blast
qed

theorem UpdateEntity_gravity_witness:
  "dFrameAnimationFPS (example_entity\<lparr>u16Flags := 2, dVelocityY := 3, dWorldPosY := 201\<rparr>) = 20
   \<and> FLAG_IS_SET (u16Flags (example_entity\<lparr>u16Flags := 2, dVelocityY := 3, dWorldPosY := 201\<rparr>))
      (ENTITY_IS_IN_MID_AIR example_flags)
   \<and> UpdateEntity example_flags
        (example_entity\<lparr>u16Flags := 2, dVelocityY := 3, dWorldPosY := 201\<rparr>) (1 / 10) =
     Inr (example_entity\<lparr>u16Flags := 2,
            stBB := \<lparr>dBottom = 233, dLeft = 100, dRight = 116, dTop = 201\<rparr>,
            dDistanceY := 4.7088, dVelocityY := 7.7088, dWorldPosY := 208.7088,
            u8Frame := 1\<rparr>)"
proof -
  let ?e = "example_entity\<lparr>u16Flags := 2, dVelocityY := 3, dWorldPosY := 201\<rparr>"
  have step: "UpdateEntity example_flags ?e (1 / 10) =
     Inr (example_entity\<lparr>u16Flags := 2,
            stBB := \<lparr>dBottom = 233, dLeft = 100, dRight = 116, dTop = 201\<rparr>,
            dDistanceY := 4.7088, dVelocityY := 7.7088, dWorldPosY := 208.7088,
            u8Frame := 1\<rparr>)"
    by (simp add: eval_simps)
  have pre: "dFrameAnimationFPS ?e \<noteq> 0"
    "FLAG_IS_SET (u16Flags ?e) (ENTITY_IS_IN_MID_AIR example_flags)"
    by (simp_all add: example_entity_eq example_flags_def FLAG_IS_SET_bit)
  from UpdateEntity_gravity [OF pre, of "1 / 10"] step pre show ?thesis
    by (simp add: example_entity_eq example_flags_def FLAG_IS_SET_bit)
qed

subsection \<open>C9: ResurrectEntity\<close>

text \<open>
  C9. For every entity state, \<open>ResurrectEntity\<close> clears the flags \<open>ENTITY_IS_DEAD\<close>
  and \<open>ENTITY_IS_MOVING\<close> and no other bit of \<open>u16Flags\<close>, sets the position to the
  stored spawn point, and leaves every other member as it was: the velocities, the
  frame and the bounding box among them. The two enumerators are bit positions for
  which the shift \<^verbatim>\<open>1 << flag\<close> is defined.
\<close>

theorem ResurrectEntity_effect:
  assumes "ENTITY_IS_DEAD fl < 31" and "ENTITY_IS_MOVING fl < 31"
  shows "(\<forall>n. FLAG_IS_SET (u16Flags (ResurrectEntity fl e)) n \<longleftrightarrow>
        FLAG_IS_SET (u16Flags e) n \<and> n \<noteq> ENTITY_IS_DEAD fl \<and> n \<noteq> ENTITY_IS_MOVING fl)
   \<and> (\<forall>n. bit (u16Flags (ResurrectEntity fl e)) n \<longleftrightarrow>
        bit (u16Flags e) n \<and> n \<noteq> ENTITY_IS_DEAD fl \<and> n \<noteq> ENTITY_IS_MOVING fl)
   \<and> dWorldPosX (ResurrectEntity fl e) = dInitialWorldPosX e
   \<and> dWorldPosY (ResurrectEntity fl e) = dInitialWorldPosY e
   \<and> dVelocityX (ResurrectEntity fl e) = dVelocityX e
   \<and> dVelocityY (ResurrectEntity fl e) = dVelocityY e
   \<and> u8Frame (ResurrectEntity fl e) = u8Frame e
   \<and> stBB (ResurrectEntity fl e) = stBB e
   \<and> ResurrectEntity fl e =
       e\<lparr>u16Flags := u16Flags (ResurrectEntity fl e),
         dWorldPosX := dInitialWorldPosX e,
         dWorldPosY := dInitialWorldPosY e\<rparr>"
  by (auto simp add: ResurrectEntity_def Let_def FLAG_IS_SET_clear_flag bit_clear_flag)

theorem ResurrectEntity_effect_witness:
  "ENTITY_IS_DEAD example_flags < 31 \<and> ENTITY_IS_MOVING example_flags < 31
   \<and> ResurrectEntity example_flags
     (example_entity\<lparr>u16Flags := 15, dWorldPosX := 7, dWorldPosY := 9, dVelocityX := 50,
        dVelocityY := 3, u8Frame := 5\<rparr>) =
   example_entity\<lparr>u16Flags := 10, dWorldPosX := 100, dWorldPosY := 200, dVelocityX := 50,
        dVelocityY := 3, u8Frame := 5\<rparr>"
proof -
  have shifts: "ENTITY_IS_DEAD example_flags < 31" "ENTITY_IS_MOVING example_flags < 31"
    by (simp_all add: example_flags_def)
  have "clear_flag (clear_flag 15 0) 2 = 10"
    by (simp add: clear_flag_def)
  with shifts ResurrectEntity_effect [OF shifts, of
      "example_entity\<lparr>u16Flags := 15, dWorldPosX := 7, dWorldPosY := 9, dVelocityX := 50,
        dVelocityY := 3, u8Frame := 5\<rparr>"]
  show ?thesis
    by (simp add: ResurrectEntity_def Let_def example_entity_eq example_flags_def)
qed

subsection \<open>C10: DrawEntity\<close>

text \<open>
  C10. \<open>DrawEntity\<close> on an entity with no sprite returns -1 without calling the
  renderer, and leaves the entity as it was. Whenever \<open>DrawEntity\<close> returns, the entity
  is as it was; it has called the renderer at most once, and exactly once when it
  returns 0.
\<close>

theorem DrawEntity_effect:
  "(pstSprite e = None \<longrightarrow>
      DrawEntity render err fl e cx cy =
        Inr \<lparr>returned = - 1, render_calls = [], stderr_lines = [err], entity = e\<rparr>)
   \<and> (\<forall>r. DrawEntity render err fl e cx cy = Inr r \<longrightarrow>
          entity r = e
        \<and> length (render_calls r) \<le> 1
        \<and> (returned r = 0 \<or> returned r = - 1)
        \<and> (returned r = 0 \<longrightarrow> pstSprite e \<noteq> None \<and> length (render_calls r) = 1
              \<and> stderr_lines r = []))"
  by (auto simp add: DrawEntity_def Let_def split: option.splits if_splits)

theorem DrawEntity_effect_witness:
  "pstSprite example_entity = None
   \<and> DrawEntity (\<lambda>c. 0) ''no texture'' example_flags example_entity 10 20 =
       Inr \<lparr>returned = - 1, render_calls = [], stderr_lines = [''no texture''],
            entity = example_entity\<rparr>
   \<and> sint (- 1 :: int8_t) = - 1
   \<and> DrawEntity (\<lambda>c. 0) ''no texture'' example_flags
         (example_entity\<lparr>pstSprite := Some 7, u8Frame := 3\<rparr>) 10 20 =
       Inr \<lparr>returned = 0,
            render_calls =
              [\<lparr>texture = 7,
                srcrect = \<lparr>rect_x = 48, rect_y = 0, rect_w = 16, rect_h = 32\<rparr>,
                dstrect = \<lparr>rect_x = 90, rect_y = 180, rect_w = 16, rect_h = 32\<rparr>,
                angle = 0, flip = SDL_FLIP_NONE\<rparr>],
            stderr_lines = [],
            entity = example_entity\<lparr>pstSprite := Some 7, u8Frame := 3\<rparr>\<rparr>"
proof -
  have none: "pstSprite example_entity = None"
    by (simp add: example_entity_eq)
  have drawn:
    "DrawEntity (\<lambda>c. 0) ''no texture'' example_flags
         (example_entity\<lparr>pstSprite := Some 7, u8Frame := 3\<rparr>) 10 20 =
       Inr \<lparr>returned = 0,
            render_calls =
              [\<lparr>texture = 7,
                srcrect = \<lparr>rect_x = 48, rect_y = 0, rect_w = 16, rect_h = 32\<rparr>,
                dstrect = \<lparr>rect_x = 90, rect_y = 180, rect_w = 16, rect_h = 32\<rparr>,
                angle = 0, flip = SDL_FLIP_NONE\<rparr>],
            stderr_lines = [],
            entity = example_entity\<lparr>pstSprite := Some 7, u8Frame := 3\<rparr>\<rparr>"
    by (simp add: DrawEntity_def Let_def example_entity_eq example_flags_def
        int32_of_double_def trunc_def)
  from DrawEntity_effect [of example_entity "\<lambda>c. 0" "''no texture''" example_flags 10 20]
    DrawEntity_effect [of "example_entity\<lparr>pstSprite := Some 7, u8Frame := 3\<rparr>"
       "\<lambda>c. 0" "''no texture''" example_flags 10 20]
    none drawn
  show ?thesis by simp
qed

end
